theory Spec2Isabelle
  imports Main "HOL-Library.AList"
begin

section \<open>JavaScript values and strings\<close>

text \<open>
  A decoded JSON payload, and every argument value a tool handler receives
  (\<^verbatim>\<open>unparsed: any\<close> arrives over JSON-RPC). A number is an integer below
  \<open>10\<^sup>2\<^sup>1\<close> in absolute value that a double holds exactly; fractions and larger
  numbers are outside this model. An object keeps its entries in insertion order.
\<close>

datatype json =
    JNull
  | JBool bool
  | JNum int
  | JStr string
  | JArr "json list"
  | JObj "(string \<times> json) list"

text \<open>A string is its list of code units; only the ASCII range is interpreted.\<close>

definition digit_char :: "nat \<Rightarrow> char" where
  "digit_char d = ''0123456789'' ! d"

fun string_of_nat :: "nat \<Rightarrow> string" where
  "string_of_nat n =
     (if n < 10 then [digit_char n]
      else string_of_nat (n div 10) @ [digit_char (n mod 10)])"

declare string_of_nat.simps [simp del]

text \<open>
  \<^verbatim>\<open>String(v)\<close> on a number of the model: the decimal digits, with a sign. (From
  \<open>10\<^sup>2\<^sup>1\<close> on JavaScript prints an exponent; such numbers are not modelled.)
\<close>

definition String_num :: "int \<Rightarrow> string" where
  "String_num i = (if i < 0 then CHR ''-'' # string_of_nat (nat (- i)) else string_of_nat (nat i))"

definition is_digit :: "char \<Rightarrow> bool" where
  "is_digit c = (c \<in> set ''0123456789'')"

definition is_hex_lower :: "char \<Rightarrow> bool" where
  "is_hex_lower c = (c \<in> set ''abcdef0123456789'')"

text \<open>\<^verbatim>\<open>toLowerCase\<close> on one code unit (ASCII letters; any other unit is kept).\<close>

definition toLowerCase_char :: "char \<Rightarrow> char" where
  "toLowerCase_char c =
     (case map_of (zip ''ABCDEFGHIJKLMNOPQRSTUVWXYZ'' ''abcdefghijklmnopqrstuvwxyz'') c of
        Some l \<Rightarrow> l
      | None \<Rightarrow> c)"

definition toLowerCase :: "string \<Rightarrow> string" where
  "toLowerCase s = map toLowerCase_char s"

text \<open>
  \<^verbatim>\<open>trim\<close>: white space and line terminators among the code units below 256
  (tab, line feed, vertical tab, form feed, carriage return, space, no-break space).
\<close>

definition is_white_space :: "char \<Rightarrow> bool" where
  "is_white_space c = (c \<in> set [CHR 0x09, CHR 0x0A, CHR 0x0B, CHR 0x0C, CHR 0x0D, CHR 0x20, CHR 0xA0])"

definition trim :: "string \<Rightarrow> string" where
  "trim s = rev (dropWhile is_white_space (rev (dropWhile is_white_space s)))"

section \<open>Regular expressions used by the server\<close>

text \<open>
  The patterns of \<^verbatim>\<open>mcp.ts\<close> are sequences of single-character atoms, all
  under the flag \<^verbatim>\<open>i\<close>: a literal (compared case-insensitively), \<^verbatim>\<open>\d\<close>, and
  the class \<^verbatim>\<open>[a-f0-9]\<close>.
\<close>

datatype atom = Lit char | Digit | HexClass

fun atom_matches :: "atom \<Rightarrow> char \<Rightarrow> bool" where
  "atom_matches (Lit l) c = (toLowerCase_char c = toLowerCase_char l)"
| "atom_matches Digit c = is_digit c"
| "atom_matches HexClass c = is_hex_lower (toLowerCase_char c)"

text \<open>The atoms match a prefix of the text.\<close>

fun match_here :: "atom list \<Rightarrow> string \<Rightarrow> bool" where
  "match_here [] s = True"
| "match_here (a # as) [] = False"
| "match_here (a # as) (c # cs) = (atom_matches a c \<and> match_here as cs)"

text \<open>An unanchored pattern matches at some position of the text.\<close>

fun match_somewhere :: "atom list \<Rightarrow> string \<Rightarrow> bool" where
  "match_somewhere p [] = match_here p []"
| "match_somewhere p (c # cs) = (match_here p (c # cs) \<or> match_somewhere p cs)"

text \<open>\<^verbatim>\<open>/a|b|.../i.test(s)\<close>: some alternative matches somewhere.\<close>

definition regex_test :: "atom list list \<Rightarrow> string \<Rightarrow> bool" where
  "regex_test alts s = list_ex (\<lambda>p. match_somewhere p s) alts"

text \<open>\<^verbatim>\<open>/^...$/i.test(s)\<close>: the atoms match the whole text.\<close>

fun match_whole :: "atom list \<Rightarrow> string \<Rightarrow> bool" where
  "match_whole [] [] = True"
| "match_whole [] (c # cs) = False"
| "match_whole (a # as) [] = False"
| "match_whole (a # as) (c # cs) = (atom_matches a c \<and> match_whole as cs)"

definition lits :: "string \<Rightarrow> atom list" where
  "lits s = map Lit s"

text \<open>\<^verbatim>\<open>/429|5\d\d|rate|timeout|network/i\<close>\<close>

definition TRANSIENT_RE :: "atom list list" where
  "TRANSIENT_RE =
     [lits ''429'', [Lit CHR ''5'', Digit, Digit], lits ''rate'', lits ''timeout'', lits ''network'']"

text \<open>\<^verbatim>\<open>/^0x[a-f0-9]{40}$/i\<close>\<close>

definition ADDRESS_RE :: "atom list" where
  "ADDRESS_RE = lits ''0x'' @ replicate 40 HexClass"

section \<open>Thrown values\<close>

text \<open>
  What a \<^verbatim>\<open>throw\<close> or a rejected promise carries: an \<^verbatim>\<open>Error\<close> with its message
  (\<open>JsTypeError\<close> for the \<^verbatim>\<open>TypeError\<close> subclass, which p-retry treats apart),
  p-retry's \<^verbatim>\<open>AbortError\<close> around the value it was built from, or a value that is
  not an \<^verbatim>\<open>Error\<close>, kept as its string rendering.
\<close>

datatype thrown =
    JsError string
  | JsTypeError string
  | AbortError thrown
  | NonError string

fun instanceof_Error :: "thrown \<Rightarrow> bool" where
  "instanceof_Error (NonError s) = False"
| "instanceof_Error e = True"

text \<open>
  \<^verbatim>\<open>error.message\<close>; an \<^verbatim>\<open>AbortError\<close> copies the message of the error it wraps
  (or takes the given value as its message).
\<close>

fun message :: "thrown \<Rightarrow> string" where
  "message (JsError m) = m"
| "message (JsTypeError m) = m"
| "message (AbortError e) = message e"
| "message (NonError s) = s"

text \<open>
  \<^verbatim>\<open>abortError.originalError\<close>: the wrapped error, or a fresh \<^verbatim>\<open>Error\<close> when the
  \<^verbatim>\<open>AbortError\<close> was built from a value that is not one. Only read on an
  \<^verbatim>\<open>AbortError\<close>.
\<close>

fun originalError :: "thrown \<Rightarrow> thrown" where
  "originalError (AbortError (NonError s)) = JsError s"
| "originalError (AbortError e) = e"
| "originalError e = e"

fun is_AbortError :: "thrown \<Rightarrow> bool" where
  "is_AbortError (AbortError e) = True"
| "is_AbortError e = False"

fun is_TypeError :: "thrown \<Rightarrow> bool" where
  "is_TypeError (JsTypeError m) = True"
| "is_TypeError e = False"

definition isRateLimitOrTransient :: "thrown \<Rightarrow> bool" where
  "isRateLimitOrTransient error =
     (if \<not> instanceof_Error error then False
      else regex_test TRANSIENT_RE (message error))"

section \<open>The HTTP boundary\<close>

record url =
  url_base :: string
  url_path :: string
  url_searchParams :: "(string \<times> string) list"

record http_request =
  request_url :: url
  request_headers :: "(string \<times> string) list"

text \<open>
  A response as the client reads it: \<^verbatim>\<open>res.status\<close>, \<^verbatim>\<open>res.headers.get\<close>,
  \<^verbatim>\<open>res.text()\<close> (\<open>None\<close> when reading the body rejects) and \<^verbatim>\<open>res.json()\<close>
  (the decoded body, or what decoding throws).
\<close>

record http_response =
  status :: nat
  headers :: "string \<rightharpoonup> string"
  body_text :: "string option"
  body_json :: "thrown + json"

datatype fetch_outcome = Responds http_response | Rejects thrown

text \<open>\<^verbatim>\<open>res.ok\<close>\<close>

definition ok :: "http_response \<Rightarrow> bool" where
  "ok res = (200 \<le> status res \<and> status res \<le> 299)"

text \<open>
  The process state a tool call changes: the requests issued so far, in order, and the
  lines written with \<^verbatim>\<open>console.error\<close>.
\<close>

record world =
  sent :: "http_request list"
  stderr :: "string list"

text \<open>
  What surrounds the process: the remote side (the outcome of the \<open>n\<close>-th request
  issued by the process, counting from 0), p-retry's table of network error
  messages, and the environment variables the code reads.
\<close>

record env =
  net :: "nat \<Rightarrow> http_request \<Rightarrow> fetch_outcome"
  isNetworkError :: "string \<Rightarrow> bool"
  OPENSEA_BASE_URL :: "string option"
  OPENSEA_API_KEY :: "string option"
  DEFAULT_ARBITRUM_WALLET :: "string option"

definition fetch :: "env \<Rightarrow> http_request \<Rightarrow> world \<Rightarrow> fetch_outcome \<times> world" where
  "fetch E rq w = (net E (length (sent w)) rq, w\<lparr>sent := sent w @ [rq]\<rparr>)"

text \<open>\<^verbatim>\<open>process.env.X || d\<close>: an unset or empty variable gives the default.\<close>

definition env_or :: "string option \<Rightarrow> string \<Rightarrow> string" where
  "env_or v d = (case v of None \<Rightarrow> d | Some s \<Rightarrow> if s = [] then d else s)"

definition BASE :: "env \<Rightarrow> string" where
  "BASE E = env_or (OPENSEA_BASE_URL E) ''https://api.opensea.io''"

section \<open>Query parameters\<close>

text \<open>A value of \<^verbatim>\<open>Record<string, string | number | undefined>\<close>; \<open>None\<close> is \<^verbatim>\<open>undefined\<close>.\<close>

datatype qval = QStr string | QNum int

fun String_qval :: "qval \<Rightarrow> string" where
  "String_qval (QStr s) = s"
| "String_qval (QNum i) = String_num i"

text \<open>
  \<^verbatim>\<open>URLSearchParams.set(k, v)\<close>: the first pair named \<open>k\<close> takes the value and any
  later pair named \<open>k\<close> is removed; without such a pair, one is appended.
\<close>

fun searchParams_set :: "string \<Rightarrow> string \<Rightarrow> (string \<times> string) list \<Rightarrow> (string \<times> string) list" where
  "searchParams_set k v [] = [(k, v)]"
| "searchParams_set k v (p # ps) =
     (if fst p = k then (k, v) # filter (\<lambda>q. fst q \<noteq> k) ps
      else p # searchParams_set k v ps)"

text \<open>The loop over \<^verbatim>\<open>Object.entries(searchParams)\<close>.\<close>

fun set_entries :: "(string \<times> qval option) list \<Rightarrow> (string \<times> string) list \<Rightarrow> (string \<times> string) list" where
  "set_entries [] sp = sp"
| "set_entries ((k, v) # es) sp =
     set_entries es (case v of None \<Rightarrow> sp | Some x \<Rightarrow> searchParams_set k (String_qval x) sp)"

text \<open>
  \<^verbatim>\<open>new URL(path, BASE)\<close> first cleans the text it is given: leading and trailing C0
  controls and spaces are cut off, and every tab and newline is removed. In what is left,
  what follows the first \<^verbatim>\<open>#\<close> is the fragment (never sent), and before it, what follows the
  first \<^verbatim>\<open>?\<close> is the query. A path that is empty or only a fragment leaves the query of
  \<^verbatim>\<open>BASE\<close> in place; any other path replaces it with its own. The model follows the parser
  for a path without a scheme of its own over a \<^verbatim>\<open>BASE\<close> that is a valid hierarchical URL,
  where \<^verbatim>\<open>new URL\<close> does not throw. The pathname is kept as written: dot segments,
  percent-encoding of the pathname and a leading double slash are not interpreted.
\<close>

definition c0_or_space :: "char \<Rightarrow> bool" where
  "c0_or_space c = (of_char c \<le> (32::nat))"

definition tab_or_newline :: "char \<Rightarrow> bool" where
  "tab_or_newline c = (c \<in> set [CHR 0x09, CHR 0x0A, CHR 0x0D])"

definition url_input :: "string \<Rightarrow> string" where
  "url_input s =
     filter (\<lambda>c. \<not> tab_or_newline c) (rev (dropWhile c0_or_space (rev (dropWhile c0_or_space s))))"

definition before_fragment :: "string \<Rightarrow> string" where
  "before_fragment path = takeWhile (\<lambda>c. c \<noteq> CHR ''#'') path"

definition path_name :: "string \<Rightarrow> string" where
  "path_name path = takeWhile (\<lambda>c. c \<noteq> CHR ''?'') (before_fragment path)"

definition path_query :: "string \<Rightarrow> string" where
  "path_query path = drop 1 (dropWhile (\<lambda>c. c \<noteq> CHR ''?'') (before_fragment path))"

text \<open>
  \<^verbatim>\<open>url.searchParams\<close> of a parsed URL: the query is cut at every \<^verbatim>\<open>&\<close>, empty pieces
  are skipped, a piece is cut at its first \<^verbatim>\<open>=\<close> into name and value, and in both a
  \<^verbatim>\<open>+\<close> becomes a space and \<^verbatim>\<open>%XX\<close> the code unit \<^verbatim>\<open>XX\<close>.
\<close>

fun split_on :: "char \<Rightarrow> string \<Rightarrow> string list" where
  "split_on c [] = [[]]"
| "split_on c (x # xs) =
     (if x = c then [] # split_on c xs
      else (case split_on c xs of
              [] \<Rightarrow> [[x]]
            | y # ys \<Rightarrow> (x # y) # ys))"

definition hex_value :: "char \<Rightarrow> nat option" where
  "hex_value c =
     map_of (zip ''0123456789abcdefABCDEF''
               [0, 1, 2, 3, 4, 5, 6, 7, 8, 9, 10, 11, 12, 13, 14, 15, 10, 11, 12, 13, 14, 15]) c"

fun percent_decode :: "string \<Rightarrow> string" where
  "percent_decode (c # a # b # cs) =
     (if c = CHR ''%'' then
        (case (hex_value a, hex_value b) of
           (Some h, Some l) \<Rightarrow> char_of (16 * h + l) # percent_decode cs
         | _ \<Rightarrow> c # percent_decode (a # b # cs))
      else c # percent_decode (a # b # cs))"
| "percent_decode cs = cs"

definition form_decode :: "string \<Rightarrow> string" where
  "form_decode s = percent_decode (map (\<lambda>c. if c = CHR ''+'' then CHR '' '' else c) s)"

definition parse_query :: "string \<Rightarrow> (string \<times> string) list" where
  "parse_query q =
     map (\<lambda>piece. (form_decode (takeWhile (\<lambda>c. c \<noteq> CHR ''='') piece),
                   form_decode (drop 1 (dropWhile (\<lambda>c. c \<noteq> CHR ''='') piece))))
       (filter (\<lambda>piece. piece \<noteq> []) (split_on CHR ''&'' q))"

text \<open>The query of \<^verbatim>\<open>new URL(path, BASE)\<close>, before the loop.\<close>

definition url_query :: "string \<Rightarrow> string \<Rightarrow> string" where
  "url_query base path =
     (let input = url_input path
      in if input = [] \<or> hd input = CHR ''#'' then path_query (url_input base)
         else path_query input)"

text \<open>\<^verbatim>\<open>new URL(path, BASE)\<close> followed by the loop.\<close>

definition build_url :: "string \<Rightarrow> string \<Rightarrow> (string \<times> qval option) list option \<Rightarrow> url" where
  "build_url base path searchParams =
     \<lparr>url_base = base, url_path = path_name (url_input path),
      url_searchParams =
        (case searchParams of
           None \<Rightarrow> parse_query (url_query base path)
         | Some es \<Rightarrow> set_entries es (parse_query (url_query base path)))\<rparr>"

section \<open>p-retry\<close>

text \<open>
  The library is not part of the repository. The code is written against the releases
  whose \<^verbatim>\<open>onFailedAttempt\<close> receives the error itself (up to release 6); these run on
  the \<^verbatim>\<open>retry\<close> package, and this is what they do. The input runs again after a failure
  until the retries are used up; every such failure is recorded, and the promise then
  rejects with \<^verbatim>\<open>operation.mainError()\<close>. An \<^verbatim>\<open>AbortError\<close> stops at once and rejects with
  its original error, a thrown value that is not an \<^verbatim>\<open>Error\<close> rejects with a
  \<^verbatim>\<open>TypeError\<close>, and a \<^verbatim>\<open>TypeError\<close> is retried only when its message is a known network
  error. \<^verbatim>\<open>onFailedAttempt\<close> runs after every failure that is open to a retry. The
  waiting between attempts is not modelled.
\<close>

text \<open>
  \<^verbatim>\<open>mainError\<close> of the \<^verbatim>\<open>retry\<close> package: one pass over the recorded errors that counts
  the messages and keeps the current error whenever its count so far reaches the best
  count so far. The counts are kept as properties of a plain object; the model reads a
  message without a count as 0, as the code does for every message that does not name an
  inherited property of objects (the messages of the client begin with \<^verbatim>\<open>OpenSea API error\<close>).
\<close>

fun mainError_loop :: "thrown list \<Rightarrow> (string \<rightharpoonup> nat) \<Rightarrow> thrown option \<Rightarrow> nat \<Rightarrow> thrown option" where
  "mainError_loop [] counts mainError mainErrorCount = mainError"
| "mainError_loop (error # errors) counts mainError mainErrorCount =
     (let m = message error;
          count = (case counts m of None \<Rightarrow> 0 | Some c \<Rightarrow> c) + 1;
          counts' = counts(m \<mapsto> count)
      in if count \<ge> mainErrorCount then mainError_loop errors counts' (Some error) count
         else mainError_loop errors counts' mainError mainErrorCount)"

definition mainError :: "thrown list \<Rightarrow> thrown option" where
  "mainError errors = (if errors = [] then None else mainError_loop errors Map.empty None 0)"

datatype 'a verdict = Resolve 'a | Reject thrown | Failed thrown

fun settle :: "(string \<Rightarrow> bool) \<Rightarrow> thrown + 'a \<Rightarrow> 'a verdict" where
  "settle isNet (Inr v) = Resolve v"
| "settle isNet (Inl e) =
     (if \<not> instanceof_Error e then
        Reject (JsTypeError (''Non-error was thrown: \"'' @ message e @ ''\". You should only throw errors.''))
      else if is_AbortError e then Reject (originalError e)
      else if is_TypeError e \<and> \<not> isNet (message e) then Reject e
      else Failed e)"

text \<open>
  The attempts from a given attempt number on, with the retries left and the errors
  recorded so far. A rejection with \<^verbatim>\<open>null\<close> (no error recorded) cannot arise.
\<close>

fun pRetry_from ::
  "(string \<Rightarrow> bool) \<Rightarrow> (world \<Rightarrow> (thrown + 'a) \<times> world) \<Rightarrow>
   (nat \<Rightarrow> nat \<Rightarrow> thrown \<Rightarrow> world \<Rightarrow> world) \<Rightarrow> nat \<Rightarrow> nat \<Rightarrow> thrown list \<Rightarrow> world \<Rightarrow>
   (thrown + 'a) \<times> world" where
  "pRetry_from isNet input onFailedAttempt attemptNumber retriesLeft errors w =
     (case input w of (r, w1) \<Rightarrow>
        (case settle isNet r of
           Resolve v \<Rightarrow> (Inr v, w1)
         | Reject e \<Rightarrow> (Inl e, w1)
         | Failed e \<Rightarrow>
             (let w2 = onFailedAttempt attemptNumber retriesLeft e w1 in
              (case retriesLeft of
                 0 \<Rightarrow> (Inl (case mainError (errors @ [e]) of None \<Rightarrow> NonError ''null'' | Some m \<Rightarrow> m), w2)
               | Suc k \<Rightarrow>
                   pRetry_from isNet input onFailedAttempt (Suc attemptNumber) k (errors @ [e]) w2))))"

declare pRetry_from.simps [simp del]

definition pRetry ::
  "(string \<Rightarrow> bool) \<Rightarrow> (world \<Rightarrow> (thrown + 'a) \<times> world) \<Rightarrow>
   (nat \<Rightarrow> nat \<Rightarrow> thrown \<Rightarrow> world \<Rightarrow> world) \<Rightarrow> nat \<Rightarrow> world \<Rightarrow> (thrown + 'a) \<times> world" where
  "pRetry isNet input onFailedAttempt retries w = pRetry_from isNet input onFailedAttempt 1 retries [] w"

section \<open>The resilient fetch client\<close>

record RateLimitInfo =
  limit :: "string option"
  remaining :: "string option"
  reset :: "string option"

definition extractRateLimit :: "(string \<rightharpoonup> string) \<Rightarrow> RateLimitInfo" where
  "extractRateLimit hs =
     \<lparr>limit = hs ''x-ratelimit-limit'',
      remaining = hs ''x-ratelimit-remaining'',
      reset = hs ''x-ratelimit-reset''\<rparr>"

record FetchResult =
  data :: json
  rateLimit :: RateLimitInfo

text \<open>The message of the error built for a response that is not \<^verbatim>\<open>ok\<close>.\<close>

definition api_error_message :: "http_response \<Rightarrow> string" where
  "api_error_message res =
     ''OpenSea API error '' @ string_of_nat (status res) @ '': '' @
     (case body_text res of None \<Rightarrow> [] | Some t \<Rightarrow> t)"

text \<open>The \<^verbatim>\<open>try\<close> block of one attempt: what it returns or throws.\<close>

definition attempt_body :: "fetch_outcome \<Rightarrow> thrown + FetchResult" where
  "attempt_body out =
     (case out of
        Rejects t \<Rightarrow> Inl t
      | Responds res \<Rightarrow>
          if \<not> ok res then
            (let err = JsError (api_error_message res) in
             if status res = 429 \<or> status res \<ge> 500 then Inl err
             else Inl (AbortError err))
          else
            (case body_json res of
               Inl t \<Rightarrow> Inl t
             | Inr d \<Rightarrow> Inr \<lparr>data = d, rateLimit = extractRateLimit (headers res)\<rparr>))"

text \<open>One attempt: the \<^verbatim>\<open>try\<close> block, then the \<^verbatim>\<open>catch\<close> that classifies what it threw.\<close>

definition osFetch_attempt :: "env \<Rightarrow> http_request \<Rightarrow> world \<Rightarrow> (thrown + FetchResult) \<times> world" where
  "osFetch_attempt E rq w =
     (case fetch E rq w of (out, w1) \<Rightarrow>
        (case attempt_body out of
           Inr r \<Rightarrow> (Inr r, w1)
         | Inl err \<Rightarrow>
             if isRateLimitOrTransient err then (Inl err, w1)
             else (Inl (AbortError err), w1)))"

definition onFailedAttempt :: "nat \<Rightarrow> nat \<Rightarrow> thrown \<Rightarrow> world \<Rightarrow> world" where
  "onFailedAttempt attemptNumber retriesLeft e w =
     w\<lparr>stderr := stderr w @
        [''OpenSea fetch failed (attempt '' @ string_of_nat attemptNumber @ '', left '' @
         string_of_nat retriesLeft @ ''): '' @ message e]\<rparr>"

definition osFetch_request :: "env \<Rightarrow> string \<Rightarrow> string \<Rightarrow> (string \<times> qval option) list option \<Rightarrow> http_request" where
  "osFetch_request E path apiKey searchParams =
     \<lparr>request_url = build_url (BASE E) path searchParams,
      request_headers = [(''x-api-key'', apiKey), (''accept'', ''application/json'')]\<rparr>"

text \<open>
  The call of \<^verbatim>\<open>pRetry\<close> with \<^verbatim>\<open>retries: 4\<close>. \<^verbatim>\<open>RETRY_CONFIG\<close> (factor 2, 500 ms to 4000 ms,
  randomised) only sets the waiting between attempts.
\<close>

definition osFetch ::
  "env \<Rightarrow> string \<Rightarrow> string \<Rightarrow> (string \<times> qval option) list option \<Rightarrow> world \<Rightarrow> (thrown + FetchResult) \<times> world" where
  "osFetch E path apiKey searchParams w =
     pRetry (isNetworkError E) (osFetch_attempt E (osFetch_request E path apiKey searchParams))
       onFailedAttempt 4 w"

section \<open>Reading decoded payloads\<close>

text \<open>
  \<^verbatim>\<open>x?.k\<close> on a decoded payload; \<open>None\<close> is \<^verbatim>\<open>undefined\<close>. Only an object has
  the properties read here. The entries of an object have distinct keys.
\<close>

fun get_prop :: "json \<Rightarrow> string \<Rightarrow> json option" where
  "get_prop (JObj kvs) k = map_of kvs k"
| "get_prop j k = None"

definition nullish :: "json option \<Rightarrow> bool" where
  "nullish v = (v = None \<or> v = Some JNull)"

text \<open>\<^verbatim>\<open>a ?? b\<close>\<close>

definition coalesce :: "json option \<Rightarrow> json option \<Rightarrow> json option" where
  "coalesce a b = (if nullish a then b else a)"

text \<open>\<^verbatim>\<open>v ?? null\<close>\<close>

definition or_null :: "json option \<Rightarrow> json" where
  "or_null v = (case v of None \<Rightarrow> JNull | Some j \<Rightarrow> j)"

fun is_truthy :: "json \<Rightarrow> bool" where
  "is_truthy JNull = False"
| "is_truthy (JBool b) = b"
| "is_truthy (JNum i) = (i \<noteq> 0)"
| "is_truthy (JStr s) = (s \<noteq> [])"
| "is_truthy (JArr xs) = True"
| "is_truthy (JObj kvs) = True"

definition json_of_string_option :: "string option \<Rightarrow> json" where
  "json_of_string_option v = (case v of None \<Rightarrow> JNull | Some s \<Rightarrow> JStr s)"

definition json_of_rateLimit :: "RateLimitInfo \<Rightarrow> json" where
  "json_of_rateLimit r =
     JObj [(''limit'', json_of_string_option (limit r)),
           (''remaining'', json_of_string_option (remaining r)),
           (''reset'', json_of_string_option (reset r))]"

section \<open>Schemas\<close>

text \<open>
  zod is not part of the repository; a schema is modelled by what \<^verbatim>\<open>safeParse\<close>
  returns for it: the issues, or the parsed data. An issue keeps its code, its path
  and, where the schema sets one, its message.
\<close>

datatype issue =
    invalid_type "string list"
  | invalid_string "string list" string
  | too_small "string list" string
  | custom "string list" string

text \<open>\<^verbatim>\<open>z.string().optional()\<close>\<close>

fun z_string_optional :: "string list \<Rightarrow> json option \<Rightarrow> issue list \<times> string option" where
  "z_string_optional path None = ([], None)"
| "z_string_optional path (Some (JStr s)) = ([], Some s)"
| "z_string_optional path (Some v) = ([invalid_type path], None)"

text \<open>\<^verbatim>\<open>z.number().optional()\<close>\<close>

fun z_number_optional :: "string list \<Rightarrow> json option \<Rightarrow> issue list \<times> int option" where
  "z_number_optional path None = ([], None)"
| "z_number_optional path (Some (JNum i)) = ([], Some i)"
| "z_number_optional path (Some v) = ([invalid_type path], None)"

text \<open>\<^verbatim>\<open>z.boolean().optional()\<close>\<close>

fun z_boolean_optional :: "string list \<Rightarrow> json option \<Rightarrow> issue list \<times> bool option" where
  "z_boolean_optional path None = ([], None)"
| "z_boolean_optional path (Some (JBool b)) = ([], Some b)"
| "z_boolean_optional path (Some v) = ([invalid_type path], None)"

text \<open>\<^verbatim>\<open>EthAddressSchema.optional()\<close>: trim and lower-case a string, then the pattern.\<close>

fun EthAddressSchema_optional :: "string list \<Rightarrow> json option \<Rightarrow> issue list \<times> string option" where
  "EthAddressSchema_optional path None = ([], None)"
| "EthAddressSchema_optional path (Some (JStr s)) =
     (let v = toLowerCase (trim s) in
      if match_whole ADDRESS_RE v then ([], Some v)
      else ([invalid_string path ''address must be a 42-char 0x-prefixed hex string''], None))"
| "EthAddressSchema_optional path (Some v) = ([invalid_type path], None)"

text \<open>\<^verbatim>\<open>z.string(...).min(1, msg)\<close> on a preprocessed string.\<close>

definition min1 :: "string list \<Rightarrow> string \<Rightarrow> string \<Rightarrow> issue list \<times> string option" where
  "min1 path msg v = (if length v \<ge> 1 then ([], Some v) else ([too_small path msg], None))"

text \<open>\<^verbatim>\<open>TokenIdSchema.optional()\<close>: a number or a string becomes its trimmed string form.\<close>

fun TokenIdSchema_optional :: "string list \<Rightarrow> json option \<Rightarrow> issue list \<times> string option" where
  "TokenIdSchema_optional path None = ([], None)"
| "TokenIdSchema_optional path (Some (JNum i)) = min1 path ''token_id cannot be empty'' (trim (String_num i))"
| "TokenIdSchema_optional path (Some (JStr s)) = min1 path ''token_id cannot be empty'' (trim s)"
| "TokenIdSchema_optional path (Some v) = ([invalid_type path], None)"

text \<open>\<^verbatim>\<open>CollectionSlugSchema.optional()\<close>: a string is trimmed.\<close>

fun CollectionSlugSchema_optional :: "string list \<Rightarrow> json option \<Rightarrow> issue list \<times> string option" where
  "CollectionSlugSchema_optional path None = ([], None)"
| "CollectionSlugSchema_optional path (Some (JStr s)) = min1 path ''collection_slug cannot be empty'' (trim s)"
| "CollectionSlugSchema_optional path (Some v) = ([invalid_type path], None)"

text \<open>\<^verbatim>\<open>a ?? b\<close> on parsed optional fields (never \<^verbatim>\<open>null\<close>).\<close>

definition orElse :: "'a option \<Rightarrow> 'a option \<Rightarrow> 'a option" where
  "orElse a b = (case a of None \<Rightarrow> b | Some x \<Rightarrow> Some x)"

text \<open>Truthiness of an optional string.\<close>

definition truthy_string :: "string option \<Rightarrow> bool" where
  "truthy_string v = (case v of None \<Rightarrow> False | Some s \<Rightarrow> s \<noteq> [])"

text \<open>\<^verbatim>\<open>v ? v : d\<close> on an optional string.\<close>

definition truthy_or :: "string option \<Rightarrow> string \<Rightarrow> string" where
  "truthy_or v d = (case v of None \<Rightarrow> d | Some s \<Rightarrow> if s \<noteq> [] then s else d)"

definition ARBITRUM_CHAIN :: string where
  "ARBITRUM_CHAIN = ''arbitrum''"

definition DEFAULTS_wallet :: "env \<Rightarrow> string" where
  "DEFAULTS_wallet E =
     toLowerCase (env_or (DEFAULT_ARBITRUM_WALLET E) ''0xc9d7a0d7136277a4b1ffda1cadb0f1f114865af1'')"

definition DEFAULTS_collection_slug :: string where
  "DEFAULTS_collection_slug = ''alchemy-denver2025-blue''"

definition DEFAULTS_contract :: string where
  "DEFAULTS_contract = ''0xe6270e46c9f99f00d459ca707298d8679f44b9ae''"

definition DEFAULTS_token_id :: string where
  "DEFAULTS_token_id = ''13''"

subsection \<open>get_wallet_nfts\<close>

record GetWalletNftsData =
  wn_address :: string
  wn_cursor :: "string option"

text \<open>The candidate of one alias: a string is trimmed and lower-cased, anything else is empty.\<close>

fun wallet_candidate :: "json option \<Rightarrow> string" where
  "wallet_candidate (Some (JStr s)) = toLowerCase (trim s)"
| "wallet_candidate v = []"

definition GetWalletNftsSchemaRaw :: "env \<Rightarrow> json \<Rightarrow> issue list + GetWalletNftsData" where
  "GetWalletNftsSchemaRaw E unparsed =
     (case unparsed of
        JObj kvs \<Rightarrow>
          (let i = map_of kvs in
           case z_string_optional [''cursor''] (i ''cursor'') of (iss, cur) \<Rightarrow>
             if iss \<noteq> [] then Inl iss
             else
               (let cand = find (\<lambda>v. length v > 0)
                             (map wallet_candidate
                                [i ''address'', i ''wallet'', i ''wallet_address'', i ''walletAddress'',
                                 i ''owner'', i ''account'']);
                    fallback = toLowerCase (env_or (DEFAULT_ARBITRUM_WALLET E)
                                  ''0xc9d7a0d7136277a4b1ffda1cadb0f1f114865af1'');
                    a = (case cand of Some c \<Rightarrow> c | None \<Rightarrow> fallback)
                in if \<not> match_whole ADDRESS_RE a
                   then Inl [custom [''address''] ''address must be a 42-char 0x-prefixed hex string'']
                   else Inr \<lparr>wn_address = a, wn_cursor = cur\<rparr>))
      | _ \<Rightarrow> Inl [invalid_type []])"

text \<open>
  \<^verbatim>\<open>data?.next ?? data?.next_cursor ?? null\<close>
\<close>

definition nextCursor_of :: "json \<Rightarrow> json" where
  "nextCursor_of d = or_null (coalesce (get_prop d ''next'') (get_prop d ''next_cursor''))"

text \<open>
  A tool handler returns one text content item holding \<^verbatim>\<open>JSON.stringify\<close> of an
  object; the model returns that object. A handler that throws is \<open>Inl\<close>.
\<close>

definition get_wallet_nfts :: "env \<Rightarrow> string \<Rightarrow> json \<Rightarrow> world \<Rightarrow> (thrown + json) \<times> world" where
  "get_wallet_nfts E apiKey unparsed w =
     (let parsed = GetWalletNftsSchemaRaw E unparsed;
          a = (case parsed of Inr d \<Rightarrow> wn_address d | Inl iss \<Rightarrow> DEFAULTS_wallet E);
          cursor = (case parsed of Inr d \<Rightarrow> wn_cursor d | Inl iss \<Rightarrow> None)
      in case osFetch E (''/api/v2/chain/'' @ ARBITRUM_CHAIN @ ''/account/'' @ a @ ''/nfts'') apiKey
                (Some [(''cursor'', map_option QStr cursor)]) w of
           (Inl e, w1) \<Rightarrow> (Inl e, w1)
         | (Inr result, w1) \<Rightarrow>
             (Inr (JObj [(''rateLimit'', json_of_rateLimit (rateLimit result)),
                         (''nextCursor'', nextCursor_of (data result)),
                         (''data'', data result)]), w1))"

subsection \<open>get_collection\<close>

text \<open>
  The four aliases of the collection slug, as \<^verbatim>\<open>GetCollectionSchemaRaw\<close> and
  \<^verbatim>\<open>GetListingsSchemaRaw\<close> declare them: the issues of the four fields and
  \<^verbatim>\<open>i.collection_slug ?? i.collectionSlug ?? i.slug ?? i.collection\<close>.
\<close>

definition slug_aliases :: "(string \<rightharpoonup> json) \<Rightarrow> issue list \<times> string option" where
  "slug_aliases i =
     (case CollectionSlugSchema_optional [''collection_slug''] (i ''collection_slug'') of (i1, s1) \<Rightarrow>
      case CollectionSlugSchema_optional [''collectionSlug''] (i ''collectionSlug'') of (i2, s2) \<Rightarrow>
      case CollectionSlugSchema_optional [''slug''] (i ''slug'') of (i3, s3) \<Rightarrow>
      case CollectionSlugSchema_optional [''collection''] (i ''collection'') of (i4, s4) \<Rightarrow>
        (i1 @ i2 @ i3 @ i4, orElse s1 (orElse s2 (orElse s3 s4))))"

definition GetCollectionSchemaRaw :: "json \<Rightarrow> issue list + string" where
  "GetCollectionSchemaRaw unparsed =
     (case unparsed of
        JObj kvs \<Rightarrow>
          (case slug_aliases (map_of kvs) of (iss, slug) \<Rightarrow>
             if iss \<noteq> [] then Inl iss
             else (case slug of
                     Some s \<Rightarrow> if s \<noteq> [] then Inr s
                               else Inl [custom [''collection_slug''] ''collection_slug is required'']
                   | None \<Rightarrow> Inl [custom [''collection_slug''] ''collection_slug is required'']))
      | _ \<Rightarrow> Inl [invalid_type []])"

definition get_collection :: "env \<Rightarrow> string \<Rightarrow> json \<Rightarrow> world \<Rightarrow> (thrown + json) \<times> world" where
  "get_collection E apiKey unparsed w =
     (let parsed = GetCollectionSchemaRaw unparsed;
          collection_slug = (case parsed of Inr s \<Rightarrow> s | Inl iss \<Rightarrow> DEFAULTS_collection_slug)
      in case osFetch E (''/api/v2/collections/'' @ collection_slug) apiKey None w of
           (Inl e, w1) \<Rightarrow> (Inl e, w1)
         | (Inr result, w1) \<Rightarrow>
             (Inr (JObj [(''rateLimit'', json_of_rateLimit (rateLimit result)),
                         (''data'', data result)]), w1))"

subsection \<open>list_arbitrum_collections\<close>

text \<open>\<^verbatim>\<open>contract.chain === ARBITRUM_CHAIN\<close>; reading a property of \<^verbatim>\<open>null\<close> throws.\<close>

fun contract_on_arbitrum :: "json \<Rightarrow> thrown + bool" where
  "contract_on_arbitrum JNull = Inl (JsTypeError ''Cannot read properties of null (reading 'chain')'')"
| "contract_on_arbitrum c = Inr (get_prop c ''chain'' = Some (JStr ARBITRUM_CHAIN))"

text \<open>\<^verbatim>\<open>Array.prototype.some\<close> with that callback: it stops at the first hit.\<close>

fun some_contract :: "json list \<Rightarrow> thrown + bool" where
  "some_contract [] = Inr False"
| "some_contract (c # cs) =
     (case contract_on_arbitrum c of
        Inl e \<Rightarrow> Inl e
      | Inr hit \<Rightarrow> if hit then Inr True else some_contract cs)"

text \<open>
  \<^verbatim>\<open>collection.contracts?.some(...)\<close> as the filter reads it: \<^verbatim>\<open>undefined\<close> counts as
  false; a \<^verbatim>\<open>contracts\<close> that is neither nullish nor an array has no function
  \<^verbatim>\<open>some\<close> to call.
\<close>

fun collection_on_arbitrum :: "json \<Rightarrow> thrown + bool" where
  "collection_on_arbitrum JNull = Inl (JsTypeError ''Cannot read properties of null (reading 'contracts')'')"
| "collection_on_arbitrum c =
     (case get_prop c ''contracts'' of
        None \<Rightarrow> Inr False
      | Some JNull \<Rightarrow> Inr False
      | Some (JArr xs) \<Rightarrow> some_contract xs
      | Some v \<Rightarrow> Inl (JsTypeError ''collection.contracts?.some is not a function''))"

fun filter_collections :: "json list \<Rightarrow> thrown + json list" where
  "filter_collections [] = Inr []"
| "filter_collections (c # cs) =
     (case collection_on_arbitrum c of
        Inl e \<Rightarrow> Inl e
      | Inr keep \<Rightarrow>
          (case filter_collections cs of
             Inl e \<Rightarrow> Inl e
           | Inr r \<Rightarrow> Inr (if keep then c # r else r)))"

text \<open>\<^verbatim>\<open>(data?.collections || []).filter(...)\<close>\<close>

definition arbitrum_only :: "json \<Rightarrow> thrown + json list" where
  "arbitrum_only d =
     (case get_prop d ''collections'' of
        None \<Rightarrow> Inr []
      | Some v \<Rightarrow>
          if \<not> is_truthy v then Inr []
          else (case v of
                  JArr xs \<Rightarrow> filter_collections xs
                | _ \<Rightarrow> Inl (JsTypeError ''(intermediate value).filter is not a function'')))"

text \<open>The own enumerable properties \<^verbatim>\<open>{...data}\<close> copies.\<close>

fun spread :: "json \<Rightarrow> (string \<times> json) list" where
  "spread (JObj kvs) = kvs"
| "spread (JArr xs) = zip (map string_of_nat [0..<length xs]) xs"
| "spread (JStr s) = zip (map string_of_nat [0..<length s]) (map (\<lambda>c. JStr [c]) s)"
| "spread j = []"

text \<open>
  The handler receives \<^verbatim>\<open>{limit, cursor}\<close> already parsed by the server framework
  against \<^verbatim>\<open>ListCollectionsSchema.shape\<close>.
\<close>

definition list_arbitrum_collections ::
  "env \<Rightarrow> string \<Rightarrow> int \<Rightarrow> string option \<Rightarrow> world \<Rightarrow> (thrown + json) \<times> world" where
  "list_arbitrum_collections E apiKey lim cursor w =
     (let params = [(''limit'', Some (QNum lim))] @
                   (if truthy_string cursor then [(''next'', map_option QStr cursor)] else [])
      in case osFetch E ''/api/v2/collections'' apiKey (Some params) w of
           (Inl e, w1) \<Rightarrow> (Inl e, w1)
         | (Inr result, w1) \<Rightarrow>
             (let nextCursor = or_null (get_prop (data result) ''next'') in
              case arbitrum_only (data result) of
                Inl e \<Rightarrow> (Inl e, w1)
              | Inr cs \<Rightarrow>
                  (Inr (JObj [(''rateLimit'', json_of_rateLimit (rateLimit result)),
                              (''nextCursor'', nextCursor),
                              (''data'', JObj (AList.update ''collections'' (JArr cs) (spread (data result))))]),
                   w1)))"

subsection \<open>get_listings_by_collection\<close>

record GetListingsData =
  gl_collection_slug :: "string option"
  gl_limit :: "int option"
  gl_cursor :: "string option"

definition GetListingsSchemaRaw :: "json \<Rightarrow> issue list + GetListingsData" where
  "GetListingsSchemaRaw unparsed =
     (case unparsed of
        JObj kvs \<Rightarrow>
          (let i = map_of kvs in
           case slug_aliases i of (i1, slug) \<Rightarrow>
           case z_number_optional [''limit''] (i ''limit'') of (i2, lim) \<Rightarrow>
           case z_string_optional [''cursor''] (i ''cursor'') of (i3, cur) \<Rightarrow>
             if i1 @ i2 @ i3 \<noteq> [] then Inl (i1 @ i2 @ i3)
             else if \<not> truthy_string slug
                  then Inl [custom [''collection_slug''] ''collection_slug is required'']
                  else Inr \<lparr>gl_collection_slug = slug, gl_limit = lim, gl_cursor = cur\<rparr>)
      | _ \<Rightarrow> Inl [invalid_type []])"

text \<open>
  \<^verbatim>\<open>{ collection_slug }\<close>, then \<^verbatim>\<open>limit\<close> and \<^verbatim>\<open>next\<close> when they are defined.
\<close>

definition collection_params :: "string \<Rightarrow> int option \<Rightarrow> string option \<Rightarrow> (string \<times> qval option) list" where
  "collection_params collection_slug lim cursor =
     [(''collection_slug'', Some (QStr collection_slug))] @
     (case lim of None \<Rightarrow> [] | Some l \<Rightarrow> [(''limit'', Some (QNum l))]) @
     (case cursor of None \<Rightarrow> [] | Some c \<Rightarrow> [(''next'', Some (QStr c))])"

definition get_listings_by_collection :: "env \<Rightarrow> string \<Rightarrow> json \<Rightarrow> world \<Rightarrow> (thrown + json) \<times> world" where
  "get_listings_by_collection E apiKey unparsed w =
     (let parsed = GetListingsSchemaRaw unparsed;
          collection_slug =
            (case parsed of
               Inr d \<Rightarrow> truthy_or (gl_collection_slug d) DEFAULTS_collection_slug
             | Inl iss \<Rightarrow> DEFAULTS_collection_slug);
          lim = (case parsed of Inr d \<Rightarrow> gl_limit d | Inl iss \<Rightarrow> None);
          cursor = (case parsed of Inr d \<Rightarrow> gl_cursor d | Inl iss \<Rightarrow> None)
      in case osFetch E (''/api/v2/orders/'' @ ARBITRUM_CHAIN @ ''/seaport/listings'') apiKey
                (Some (collection_params collection_slug lim cursor)) w of
           (Inl e, w1) \<Rightarrow> (Inl e, w1)
         | (Inr result, w1) \<Rightarrow>
             (Inr (JObj [(''rateLimit'', json_of_rateLimit (rateLimit result)),
                         (''nextCursor'', nextCursor_of (data result)),
                         (''data'', data result)]), w1))"

section \<open>The plugin interface and registry\<close>

datatype token_standard = ERC721 | ERC1155

record AssetParams =
  contractAddress :: string
  tokenId :: qval
  chainId :: int

text \<open>Optional fields are \<open>None\<close> when the object literal leaves them out or \<^verbatim>\<open>undefined\<close>.\<close>

record NftPrimitive =
  nft_contractAddress :: string
  nft_tokenId :: string
  nft_tokenStandard :: token_standard
  nft_owner :: "json option"
  nft_name :: "json option"
  nft_description :: "json option"
  nft_image :: "json option"
  nft_attributes :: "json option"
  nft_isListed :: "bool option"
  nft_isOffered :: "bool option"
  nft_currentPrice :: "string option"
  nft_floorPrice :: "string option"
  nft_lastSalePrice :: "string option"
  nft_offerPrice :: "string option"
  nft_collectionSlug :: "json option"
  nft_collectionName :: "json option"
  nft_collectionVerified :: "bool option"
  nft_chainId :: int

text \<open>
  \<^verbatim>\<open>interface NftPlugin\<close>. Every capability is asynchronous: it may issue requests and
  may reject. The order queries are typed \<^verbatim>\<open>any[]\<close>; what they resolve to is kept as
  a JSON value and the callers test it with \<^verbatim>\<open>Array.isArray\<close>.
\<close>

record NftPlugin =
  plugin_id :: string
  getAsset :: "AssetParams \<Rightarrow> world \<Rightarrow> (thrown + NftPrimitive) \<times> world"
  getListings :: "AssetParams \<Rightarrow> world \<Rightarrow> (thrown + json) \<times> world"
  getOffers :: "AssetParams \<Rightarrow> world \<Rightarrow> (thrown + json) \<times> world"
  list_nft :: "json \<Rightarrow> world \<Rightarrow> (thrown + json) \<times> world"
  buy :: "json \<Rightarrow> world \<Rightarrow> (thrown + json) \<times> world"
  offer :: "json \<Rightarrow> world \<Rightarrow> (thrown + json) \<times> world"
  cancelOffer :: "json \<Rightarrow> world \<Rightarrow> (thrown + json) \<times> world"
  transfer_nft :: "json \<Rightarrow> world \<Rightarrow> (thrown + json) \<times> world"
  wrap :: "json \<Rightarrow> world \<Rightarrow> (thrown + json) \<times> world"
  unwrap :: "json \<Rightarrow> world \<Rightarrow> (thrown + json) \<times> world"
  bulkCancel :: "json \<Rightarrow> world \<Rightarrow> (thrown + json) \<times> world"

text \<open>
  \<^verbatim>\<open>const registry = new Map<string, NftPlugin>()\<close>: the entries in insertion order.
  \<^verbatim>\<open>Map.set\<close> replaces the value of an existing key in place and appends a new key.
\<close>

type_synonym registry = "(string \<times> NftPlugin) list"

definition registerNftPlugin :: "NftPlugin \<Rightarrow> registry \<Rightarrow> registry" where
  "registerNftPlugin plugin reg = AList.update (plugin_id plugin) plugin reg"

definition getNftPlugin :: "registry \<Rightarrow> string \<Rightarrow> NftPlugin option" where
  "getNftPlugin reg k = map_of reg k"

text \<open>The registry of a fresh process, and the registry after a sequence of registrations.\<close>

definition empty_registry :: registry where
  "empty_registry = []"

definition register_all :: "NftPlugin list \<Rightarrow> registry \<Rightarrow> registry" where
  "register_all ps reg = foldl (\<lambda>r p. registerNftPlugin p r) reg ps"

text \<open>The placeholder every write capability resolves to.\<close>

definition prepared :: "string \<Rightarrow> json \<Rightarrow> world \<Rightarrow> (thrown + json) \<times> world" where
  "prepared tag params w = (Inr (JObj [(''prepared'', JStr tag), (''params'', params)]), w)"

subsection \<open>The Magic Eden plugin\<close>

definition MagicEdenPlugin :: NftPlugin where
  "MagicEdenPlugin =
     \<lparr>plugin_id = ''magic-eden'',
      getAsset = (\<lambda>params w.
        (Inr \<lparr>nft_contractAddress = contractAddress params,
              nft_tokenId = String_qval (tokenId params),
              nft_tokenStandard = ERC721,
              nft_owner = None, nft_name = None, nft_description = None, nft_image = None,
              nft_attributes = None, nft_isListed = None, nft_isOffered = None,
              nft_currentPrice = None, nft_floorPrice = None, nft_lastSalePrice = None,
              nft_offerPrice = None, nft_collectionSlug = None, nft_collectionName = None,
              nft_collectionVerified = None,
              nft_chainId = chainId params\<rparr>, w)),
      getListings = (\<lambda>params w. (Inr (JArr []), w)),
      getOffers = (\<lambda>params w. (Inr (JArr []), w)),
      list_nft = prepared ''magic-eden-listing'',
      buy = prepared ''magic-eden-buy'',
      offer = prepared ''magic-eden-offer'',
      cancelOffer = prepared ''magic-eden-cancel-offer'',
      transfer_nft = prepared ''magic-eden-transfer'',
      wrap = prepared ''wrap-weth'',
      unwrap = prepared ''unwrap-weth'',
      bulkCancel = prepared ''magic-eden-bulk-cancel''\<rparr>"

subsection \<open>The OpenSea plugin\<close>

text \<open>The plugin's own \<^verbatim>\<open>osFetch\<close>: one request, no retry, no rate-limit extraction.\<close>

definition plugin_request :: "env \<Rightarrow> string \<Rightarrow> (string \<times> qval option) list option \<Rightarrow> http_request" where
  "plugin_request E path params =
     \<lparr>request_url = build_url (BASE E) path params,
      request_headers = [(''x-api-key'', env_or (OPENSEA_API_KEY E) []), (''accept'', ''application/json'')]\<rparr>"

definition plugin_osFetch ::
  "env \<Rightarrow> string \<Rightarrow> (string \<times> qval option) list option \<Rightarrow> world \<Rightarrow> (thrown + json) \<times> world" where
  "plugin_osFetch E path params w =
     (case fetch E (plugin_request E path params) w of
        (Rejects t, w1) \<Rightarrow> (Inl t, w1)
      | (Responds res, w1) \<Rightarrow>
          if \<not> ok res then (Inl (JsError (api_error_message res)), w1)
          else (case body_json res of
                  Inl t \<Rightarrow> (Inl t, w1)
                | Inr d \<Rightarrow> (Inr d, w1)))"

definition chain_slug :: "int \<Rightarrow> string" where
  "chain_slug c = (if c = 42161 then ''arbitrum'' else ''ethereum'')"

text \<open>\<^verbatim>\<open>d?.k1?.k2 ... ?? undefined\<close>\<close>

fun optional_chain :: "json \<Rightarrow> string list \<Rightarrow> json option" where
  "optional_chain j [] = (if j = JNull then None else Some j)"
| "optional_chain j (k # ks) =
     (case get_prop j k of
        None \<Rightarrow> None
      | Some v \<Rightarrow> optional_chain v ks)"

definition order_params :: "AssetParams \<Rightarrow> (string \<times> qval option) list" where
  "order_params params =
     [(''asset_contract_address'', Some (QStr (contractAddress params))),
      (''token_ids'', Some (QStr (String_qval (tokenId params))))]"

text \<open>\<^verbatim>\<open>res?.orders ?? []\<close>\<close>

definition orders_of :: "json \<Rightarrow> json" where
  "orders_of res = (case get_prop res ''orders'' of None \<Rightarrow> JArr [] | Some v \<Rightarrow> if v = JNull then JArr [] else v)"

definition OpenSeaPlugin :: "env \<Rightarrow> NftPlugin" where
  "OpenSeaPlugin E =
     \<lparr>plugin_id = ''opensea'',
      getAsset = (\<lambda>params w.
        case plugin_osFetch E (''/api/v2/chain/'' @ chain_slug (chainId params) @ ''/contract/'' @
                                contractAddress params @ ''/nfts/'' @ String_qval (tokenId params)) None w of
          (Inl e, w1) \<Rightarrow> (Inl e, w1)
        | (Inr d, w1) \<Rightarrow>
            (Inr \<lparr>nft_contractAddress = contractAddress params,
                  nft_tokenId = String_qval (tokenId params),
                  nft_tokenStandard =
                    (if optional_chain d [''nft'', ''token_standard''] = Some (JStr ''erc1155'')
                     then ERC1155 else ERC721),
                  nft_owner = optional_chain d [''nft'', ''owner''],
                  nft_name = optional_chain d [''nft'', ''name''],
                  nft_description = optional_chain d [''nft'', ''description''],
                  nft_image = optional_chain d [''nft'', ''image_url''],
                  nft_attributes = None, nft_isListed = None, nft_isOffered = None,
                  nft_currentPrice = None, nft_floorPrice = None, nft_lastSalePrice = None,
                  nft_offerPrice = None,
                  nft_collectionSlug = optional_chain d [''nft'', ''collection'', ''slug''],
                  nft_collectionName = optional_chain d [''nft'', ''collection'', ''name''],
                  nft_collectionVerified =
                    Some (case optional_chain d [''nft'', ''collection'', ''is_verified''] of
                            None \<Rightarrow> False | Some v \<Rightarrow> is_truthy v),
                  nft_chainId = chainId params\<rparr>, w1)),
      getListings = (\<lambda>params w.
        case plugin_osFetch E (''/api/v2/orders/'' @ chain_slug (chainId params) @ ''/seaport/listings'')
               (Some (order_params params)) w of
          (Inl e, w1) \<Rightarrow> (Inl e, w1)
        | (Inr res, w1) \<Rightarrow> (Inr (orders_of res), w1)),
      getOffers = (\<lambda>params w.
        case plugin_osFetch E (''/api/v2/orders/'' @ chain_slug (chainId params) @ ''/seaport/offers'')
               (Some (order_params params)) w of
          (Inl e, w1) \<Rightarrow> (Inl e, w1)
        | (Inr res, w1) \<Rightarrow> (Inr (orders_of res), w1)),
      list_nft = prepared ''seaport-listing'',
      buy = prepared ''seaport-buy'',
      offer = prepared ''seaport-offer'',
      cancelOffer = prepared ''seaport-cancel-offer'',
      transfer_nft = prepared ''nft-transfer'',
      wrap = prepared ''wrap-weth'',
      unwrap = prepared ''unwrap-weth'',
      bulkCancel = prepared ''bulk-cancel''\<rparr>"

section \<open>The asset tools\<close>

record AssetOrdersData =
  contract_address :: "string option"
  token_id :: "string option"
  collection_slug :: "string option"
  fallback_to_collection :: "bool option"
  limit_arg :: "int option"
  cursor_arg :: "string option"

definition GetAssetListingsSchemaRaw :: "json \<Rightarrow> issue list + AssetOrdersData" where
  "GetAssetListingsSchemaRaw unparsed =
     (case unparsed of
        JObj kvs \<Rightarrow>
          (let i = map_of kvs in
           case EthAddressSchema_optional [''contract_address''] (i ''contract_address'') of (i1, a1) \<Rightarrow>
           case EthAddressSchema_optional [''contractAddress''] (i ''contractAddress'') of (i2, a2) \<Rightarrow>
           case TokenIdSchema_optional [''token_id''] (i ''token_id'') of (i3, t1) \<Rightarrow>
           case TokenIdSchema_optional [''tokenId''] (i ''tokenId'') of (i4, t2) \<Rightarrow>
           case CollectionSlugSchema_optional [''collection_slug''] (i ''collection_slug'') of (i5, s1) \<Rightarrow>
           case CollectionSlugSchema_optional [''collectionSlug''] (i ''collectionSlug'') of (i6, s2) \<Rightarrow>
           case z_boolean_optional [''fallback_to_collection''] (i ''fallback_to_collection'') of (i7, f1) \<Rightarrow>
           case z_boolean_optional [''fallbackToCollection''] (i ''fallbackToCollection'') of (i8, f2) \<Rightarrow>
           case z_number_optional [''limit''] (i ''limit'') of (i9, lim) \<Rightarrow>
           case z_string_optional [''cursor''] (i ''cursor'') of (i10, cur) \<Rightarrow>
             (let iss = i1 @ i2 @ i3 @ i4 @ i5 @ i6 @ i7 @ i8 @ i9 @ i10;
                  d = \<lparr>contract_address = orElse a1 a2,
                       token_id = orElse t1 t2,
                       collection_slug = orElse s1 s2,
                       fallback_to_collection = orElse f1 f2,
                       limit_arg = lim,
                       cursor_arg = cur\<rparr>;
                  refined =
                    (if \<not> truthy_string (contract_address d)
                     then [custom [''contract_address''] ''contract_address is required''] else []) @
                    (if \<not> truthy_string (token_id d)
                     then [custom [''token_id''] ''token_id is required''] else [])
              in if iss \<noteq> [] then Inl iss
                 else if refined \<noteq> [] then Inl refined
                 else Inr d))
      | _ \<Rightarrow> Inl [invalid_type []])"

text \<open>\<^verbatim>\<open>GetAssetOffersSchemaRaw\<close> is declared with the same text.\<close>

definition GetAssetOffersSchemaRaw :: "json \<Rightarrow> issue list + AssetOrdersData" where
  "GetAssetOffersSchemaRaw unparsed = GetAssetListingsSchemaRaw unparsed"

text \<open>
  \<^verbatim>\<open>fallback_to_collection && collection_slug\<close>: the slug when both are truthy.
\<close>

definition fallback_slug :: "bool option \<Rightarrow> string option \<Rightarrow> string option" where
  "fallback_slug fb slug =
     (if fb = Some True then (case slug of None \<Rightarrow> None | Some s \<Rightarrow> if s \<noteq> [] then Some s else None)
      else None)"

definition asset_params :: "string \<Rightarrow> string \<Rightarrow> int option \<Rightarrow> string option \<Rightarrow> (string \<times> qval option) list" where
  "asset_params contract token lim cursor =
     [(''asset_contract_address'', Some (QStr contract)), (''token_ids'', Some (QStr token))] @
     (case lim of None \<Rightarrow> [] | Some l \<Rightarrow> [(''limit'', Some (QNum l))]) @
     (case cursor of None \<Rightarrow> [] | Some c \<Rightarrow> [(''next'', Some (QStr c))])"

definition fallback_envelope :: "string \<Rightarrow> FetchResult \<Rightarrow> json" where
  "fallback_envelope tag colResult =
     JObj [(''rateLimit'', json_of_rateLimit (rateLimit colResult)),
           (''nextCursor'', nextCursor_of (data colResult)),
           (''data'', data colResult),
           (''fallback'', JStr tag)]"

text \<open>
  The \<^verbatim>\<open>try { ... } catch {}\<close> block of an asset handler. The module argument is
  the registry that \<^verbatim>\<open>import('@vibekit/onchain-actions-nft')\<close> gives access to, or
  \<open>None\<close> when the import rejects. The block either returns the handler's result
  (\<open>Some\<close>) or is left, by a missing plugin or by anything thrown inside it
  (\<open>None\<close>); requests issued inside it stay issued.
\<close>

definition plugin_path ::
  "string \<Rightarrow> string \<Rightarrow> (NftPlugin \<Rightarrow> AssetParams \<Rightarrow> world \<Rightarrow> (thrown + json) \<times> world) \<Rightarrow>
   env \<Rightarrow> string \<Rightarrow> registry option \<Rightarrow> string \<Rightarrow> string \<Rightarrow> string option \<Rightarrow> bool option \<Rightarrow>
   int option \<Rightarrow> string option \<Rightarrow> world \<Rightarrow> json option \<times> world" where
  "plugin_path endpoint tag query E apiKey module contract token slug fb lim cursor w =
     (case module of
        None \<Rightarrow> (None, w)
      | Some reg \<Rightarrow>
          (case getNftPlugin reg ''opensea'' of
             None \<Rightarrow> (None, w)
           | Some plugin \<Rightarrow>
               (case query plugin \<lparr>contractAddress = contract, tokenId = QStr token, chainId = 42161\<rparr> w of
                  (Inl e, w1) \<Rightarrow> (None, w1)
                | (Inr orders, w1) \<Rightarrow>
                    (case (if orders = JArr [] then fallback_slug fb slug else None) of
                       Some s \<Rightarrow>
                         (case osFetch E (''/api/v2/orders/'' @ ARBITRUM_CHAIN @ ''/seaport/'' @ endpoint)
                                 apiKey (Some (collection_params s lim cursor)) w1 of
                            (Inl e, w2) \<Rightarrow> (None, w2)
                          | (Inr colResult, w2) \<Rightarrow> (Some (fallback_envelope tag colResult), w2))
                     | None \<Rightarrow> (Some (JObj [(''data'', JObj [(''orders'', orders)])]), w1)))))"

text \<open>The rest of an asset handler: the query over HTTP.\<close>

definition http_path ::
  "string \<Rightarrow> string \<Rightarrow> env \<Rightarrow> string \<Rightarrow> string \<Rightarrow> string \<Rightarrow> string option \<Rightarrow> bool option \<Rightarrow>
   int option \<Rightarrow> string option \<Rightarrow> world \<Rightarrow> (thrown + json) \<times> world" where
  "http_path endpoint tag E apiKey contract token slug fb lim cursor w =
     (case osFetch E (''/api/v2/orders/'' @ ARBITRUM_CHAIN @ ''/seaport/'' @ endpoint) apiKey
             (Some (asset_params contract token lim cursor)) w of
        (Inl e, w1) \<Rightarrow> (Inl e, w1)
      | (Inr result, w1) \<Rightarrow>
          (case (if get_prop (data result) ''orders'' = Some (JArr []) then fallback_slug fb slug else None) of
             Some s \<Rightarrow>
               (case osFetch E (''/api/v2/orders/'' @ ARBITRUM_CHAIN @ ''/seaport/'' @ endpoint) apiKey
                       (Some (collection_params s lim cursor)) w1 of
                  (Inl e, w2) \<Rightarrow> (Inl e, w2)
                | (Inr colResult, w2) \<Rightarrow> (Inr (fallback_envelope tag colResult), w2))
           | None \<Rightarrow>
               (Inr (JObj [(''rateLimit'', json_of_rateLimit (rateLimit result)),
                           (''nextCursor'', nextCursor_of (data result)),
                           (''data'', data result)]), w1)))"

text \<open>
  The two asset handlers have the same text up to the endpoint, the tag and the plugin
  capability they call.
\<close>

definition orders_by_asset ::
  "string \<Rightarrow> string \<Rightarrow> (NftPlugin \<Rightarrow> AssetParams \<Rightarrow> world \<Rightarrow> (thrown + json) \<times> world) \<Rightarrow>
   (json \<Rightarrow> issue list + AssetOrdersData) \<Rightarrow>
   env \<Rightarrow> string \<Rightarrow> registry option \<Rightarrow> json \<Rightarrow> world \<Rightarrow> (thrown + json) \<times> world" where
  "orders_by_asset endpoint tag query schema E apiKey module unparsed w =
     (let parsed = schema unparsed;
          contract = (case parsed of
                        Inr d \<Rightarrow> truthy_or (contract_address d) DEFAULTS_contract
                      | Inl iss \<Rightarrow> DEFAULTS_contract);
          token = (case parsed of
                     Inr d \<Rightarrow> truthy_or (token_id d) DEFAULTS_token_id
                   | Inl iss \<Rightarrow> DEFAULTS_token_id);
          slug = (case parsed of Inr d \<Rightarrow> collection_slug d | Inl iss \<Rightarrow> None);
          fb = (case parsed of Inr d \<Rightarrow> fallback_to_collection d | Inl iss \<Rightarrow> None);
          lim = (case parsed of Inr d \<Rightarrow> limit_arg d | Inl iss \<Rightarrow> None);
          cursor = (case parsed of Inr d \<Rightarrow> cursor_arg d | Inl iss \<Rightarrow> None)
      in case plugin_path endpoint tag query E apiKey module contract token slug fb lim cursor w of
           (Some out, w1) \<Rightarrow> (Inr out, w1)
         | (None, w1) \<Rightarrow> http_path endpoint tag E apiKey contract token slug fb lim cursor w1)"

definition get_listings_by_asset ::
  "env \<Rightarrow> string \<Rightarrow> registry option \<Rightarrow> json \<Rightarrow> world \<Rightarrow> (thrown + json) \<times> world" where
  "get_listings_by_asset E apiKey module unparsed w =
     orders_by_asset ''listings'' ''collection_listings'' getListings GetAssetListingsSchemaRaw
       E apiKey module unparsed w"

definition get_offers_by_asset ::
  "env \<Rightarrow> string \<Rightarrow> registry option \<Rightarrow> json \<Rightarrow> world \<Rightarrow> (thrown + json) \<times> world" where
  "get_offers_by_asset E apiKey module unparsed w =
     orders_by_asset ''offers'' ''collection_offers'' getOffers GetAssetOffersSchemaRaw
       E apiKey module unparsed w"

section \<open>Notions used in the statements\<close>

text \<open>The statuses the client retries: 429 and the 5xx range.\<close>

definition retryable_status :: "nat \<Rightarrow> bool" where
  "retryable_status s = (s = 429 \<or> (500 \<le> s \<and> s \<le> 599))"

text \<open>The keys of the object a tool returns, in order.\<close>

definition keys_of :: "json \<Rightarrow> string list" where
  "keys_of j = (case j of JObj kvs \<Rightarrow> map fst kvs | _ \<Rightarrow> [])"

definition envelope_keys :: "string list" where
  "envelope_keys = [''rateLimit'', ''nextCursor'', ''data'']"

text \<open>
  The classification as the specification words it, for comparison with the one of the
  source: the message matches rate, timeout or network, or holds a three-digit token
  that begins with 4 or 5.
\<close>

definition SPEC_RE :: "atom list list" where
  "SPEC_RE =
     [lits ''rate'', lits ''timeout'', lits ''network'',
      [Lit CHR ''4'', Digit, Digit], [Lit CHR ''5'', Digit, Digit]]"

definition spec_isRateLimitOrTransient :: "thrown \<Rightarrow> bool" where
  "spec_isRateLimitOrTransient error = (instanceof_Error error \<and> regex_test SPEC_RE (message error))"

text \<open>
  How often the message of an error occurs among the messages of a list of errors: the count
  that \<^verbatim>\<open>mainError()\<close> compares.
\<close>

definition occurrences :: "thrown list \<Rightarrow> thrown \<Rightarrow> nat" where
  "occurrences errors e = count_list (map message errors) (message e)"

text \<open>
  The errors of the five attempts of one call whose \<open>i\<close>-th request is answered by the
  response \<open>r i\<close>, none of them \<^verbatim>\<open>ok\<close>: what the \<^verbatim>\<open>try\<close> block throws for each, in order.
\<close>

definition attempt_errors :: "(nat \<Rightarrow> http_response) \<Rightarrow> thrown list" where
  "attempt_errors r = map (\<lambda>i. JsError (api_error_message (r i))) [0..<5]"

text \<open>
  The asset an asset handler asks the plugin about: the parsed contract and token id, or the
  defaults where the arguments failed the schema or the parsed value is empty, on Arbitrum.
\<close>

definition asset_call :: "(json \<Rightarrow> issue list + AssetOrdersData) \<Rightarrow> json \<Rightarrow> AssetParams" where
  "asset_call schema unparsed =
     \<lparr>contractAddress = (case schema unparsed of
                           Inr d \<Rightarrow> truthy_or (contract_address d) DEFAULTS_contract
                         | Inl iss \<Rightarrow> DEFAULTS_contract),
      tokenId = QStr (case schema unparsed of
                        Inr d \<Rightarrow> truthy_or (token_id d) DEFAULTS_token_id
                      | Inl iss \<Rightarrow> DEFAULTS_token_id),
      chainId = 42161\<rparr>"

text \<open>
  \<^verbatim>\<open>fallback_to_collection && collection_slug\<close> of an invocation: the slug the handler falls
  back to, when the arguments pass the schema with the opt-in and a slug.
\<close>

definition opted_slug :: "(json \<Rightarrow> issue list + AssetOrdersData) \<Rightarrow> json \<Rightarrow> string option" where
  "opted_slug schema unparsed =
     (case schema unparsed of
        Inr d \<Rightarrow> fallback_slug (fallback_to_collection d) (collection_slug d)
      | Inl iss \<Rightarrow> None)"

text \<open>
  What the order query of the plugin registered as opensea returns for an invocation;
  \<open>None\<close> when the import rejects or no such plugin is registered.
\<close>

definition plugin_outcome ::
  "(NftPlugin \<Rightarrow> AssetParams \<Rightarrow> world \<Rightarrow> (thrown + json) \<times> world) \<Rightarrow>
   (json \<Rightarrow> issue list + AssetOrdersData) \<Rightarrow> registry option \<Rightarrow> json \<Rightarrow> world \<Rightarrow>
   ((thrown + json) \<times> world) option" where
  "plugin_outcome query schema module unparsed w =
     (case module of
        None \<Rightarrow> None
      | Some reg \<Rightarrow>
          (case getNftPlugin reg ''opensea'' of
             None \<Rightarrow> None
           | Some plugin \<Rightarrow> Some (query plugin (asset_call schema unparsed) w)))"

section \<open>Sample runs\<close>

text \<open>A fresh process, and an environment around a given remote side.\<close>

definition fresh_world :: world where
  "fresh_world = \<lparr>sent = [], stderr = []\<rparr>"

definition sample_env :: "(nat \<Rightarrow> http_request \<Rightarrow> fetch_outcome) \<Rightarrow> env" where
  "sample_env remote =
     \<lparr>net = remote, isNetworkError = (\<lambda>m. m = ''fetch failed''),
      OPENSEA_BASE_URL = None, OPENSEA_API_KEY = None, DEFAULT_ARBITRUM_WALLET = None\<rparr>"

definition failure_response :: "nat \<Rightarrow> string \<Rightarrow> http_response" where
  "failure_response st body =
     \<lparr>status = st, headers = Map.empty, body_text = Some body,
      body_json = Inl (JsError ''Unexpected token in JSON'')\<rparr>"

definition success_response :: "(string \<rightharpoonup> string) \<Rightarrow> json \<Rightarrow> http_response" where
  "success_response hs d =
     \<lparr>status = 200, headers = hs, body_text = Some ''{}'', body_json = Inr d\<rparr>"

text \<open>The remote side that answers every request with a 500.\<close>

definition always_500 :: "nat \<Rightarrow> http_request \<Rightarrow> fetch_outcome" where
  "always_500 n rq = Responds (failure_response 500 ''boom'')"

text \<open>The remote side that answers every request with a 404.\<close>

definition always_404 :: "nat \<Rightarrow> http_request \<Rightarrow> fetch_outcome" where
  "always_404 n rq = Responds (failure_response 404 ''not found'')"

text \<open>The remote side that cannot be reached: every \<^verbatim>\<open>fetch\<close> rejects.\<close>

definition always_rejects :: "thrown \<Rightarrow> nat \<Rightarrow> http_request \<Rightarrow> fetch_outcome" where
  "always_rejects t n rq = Rejects t"

text \<open>The remote side whose responses carry only the remaining-quota header.\<close>

definition only_remaining :: "nat \<Rightarrow> http_request \<Rightarrow> fetch_outcome" where
  "only_remaining n rq =
     Responds (success_response [''x-ratelimit-remaining'' \<mapsto> ''42''] (JObj [(''next'', JStr ''c2'')]))"

text \<open>A query-parameter mapping with an undefined value.\<close>

definition sample_query :: "(string \<times> qval option) list" where
  "sample_query = [(''cursor'', None), (''limit'', Some (QNum 20)), (''next'', Some (QStr ''abc''))]"

text \<open>
  An implementation registered under the id of the OpenSea plugin that answers both
  order queries with a fixed value and issues no request.
\<close>

definition stub_plugin :: "json \<Rightarrow> NftPlugin" where
  "stub_plugin orders =
     MagicEdenPlugin\<lparr>plugin_id := ''opensea'',
       getListings := (\<lambda>params w. (Inr orders, w)),
       getOffers := (\<lambda>params w. (Inr orders, w))\<rparr>"

text \<open>The remote side that answers every request with a 200 and a given payload.\<close>

definition always_ok :: "json \<Rightarrow> nat \<Rightarrow> http_request \<Rightarrow> fetch_outcome" where
  "always_ok d n rq = Responds (success_response Map.empty d)"

text \<open>The remote side that answers the first request with a 404 and every later one with a 200.\<close>

definition first_404_then_ok :: "json \<Rightarrow> nat \<Rightarrow> http_request \<Rightarrow> fetch_outcome" where
  "first_404_then_ok d n rq =
     (if n = 0 then Responds (failure_response 404 ''not found'') else Responds (success_response Map.empty d))"



definition default_asset_call :: json where
  "default_asset_call = JObj [(''contract_address'', JStr DEFAULTS_contract), (''token_id'', JStr DEFAULTS_token_id)]"

definition fallback_args :: json where
  "fallback_args =
     JObj [(''contract_address'', JStr ''0xE6270E46C9F99F00D459CA707298D8679F44B9AE''), (''token_id'', JNum 13),
           (''fallback_to_collection'', JBool True), (''collection_slug'', JStr '' some-collection '')]"

text \<open>What the schema makes of \<open>fallback_args\<close>, a collection payload and its fetch result.\<close>

definition fallback_data :: AssetOrdersData where
  "fallback_data =
     \<lparr>contract_address = Some ''0xe6270e46c9f99f00d459ca707298d8679f44b9ae'', token_id = Some ''13'',
      collection_slug = Some ''some-collection'', fallback_to_collection = Some True,
      limit_arg = None, cursor_arg = None\<rparr>"

definition collection_payload :: json where
  "collection_payload = JObj [(''orders'', JArr [JStr ''order-9'']), (''next'', JStr ''c2'')]"

definition collection_result :: FetchResult where
  "collection_result =
     \<lparr>data = collection_payload, rateLimit = \<lparr>limit = None, remaining = None, reset = None\<rparr>\<rparr>"

text \<open>An environment whose default wallet carries a query.\<close>

definition query_wallet_env :: env where
  "query_wallet_env =
     (sample_env (always_ok (JObj [])))\<lparr>DEFAULT_ARBITRUM_WALLET := Some ''0xabc?cursor=undefined&x=''\<rparr>"

text \<open>
  The remote side that answers with a 500 each time, with the bodies \<^verbatim>\<open>a\<close>, \<^verbatim>\<open>a\<close>, \<^verbatim>\<open>b\<close>,
  \<^verbatim>\<open>b\<close>, \<^verbatim>\<open>c\<close> (and \<^verbatim>\<open>c\<close> from then on).
\<close>

definition bodies_aabbc :: "nat \<Rightarrow> http_request \<Rightarrow> fetch_outcome" where
  "bodies_aabbc n rq =
     Responds (failure_response 500 (if n < 2 then ''a'' else if n < 4 then ''b'' else ''c''))"

text \<open>An implementation registered under the id of the OpenSea plugin whose order queries throw.\<close>

definition throwing_plugin :: NftPlugin where
  "throwing_plugin =
     MagicEdenPlugin\<lparr>plugin_id := ''opensea'',
       getListings := (\<lambda>params w. (Inl (JsError ''plugin failure''), w)),
       getOffers := (\<lambda>params w. (Inl (JsError ''plugin failure''), w))\<rparr>"

section \<open>Matching lemmas\<close>

lemma match_here_append: "match_here p s \<Longrightarrow> match_here p (s @ t)"
  by (induction p s rule: match_here.induct) auto

lemma match_somewhere_here: "match_here p s \<Longrightarrow> match_somewhere p s"
  by (cases s) auto

lemma match_somewhere_prepend: "match_somewhere p s \<Longrightarrow> match_somewhere p (pre @ s)"
  by (induction pre) auto

lemma match_somewhere_infix: "match_here p s \<Longrightarrow> match_somewhere p (pre @ s @ post)"
  by (simp add: match_here_append match_somewhere_here match_somewhere_prepend)

lemma is_digit_digit_char: "d < 10 \<Longrightarrow> is_digit (digit_char d)"
  unfolding is_digit_def digit_char_def by (rule nth_mem) simp

lemma string_of_nat_5xx:
  assumes "500 \<le> n" "n \<le> 599"
  shows "string_of_nat n = [CHR ''5'', digit_char ((n div 10) mod 10), digit_char (n mod 10)]"
proof -
  have a: "n div 10 div 10 = 5" using assms by arith
  have b: "\<not> n < 10" "\<not> n div 10 < 10" using assms by arith+
  show ?thesis
    using a b
    by (simp add: string_of_nat.simps[of n] string_of_nat.simps[of "n div 10"]
        string_of_nat.simps[of "5"] digit_char_def)
qed

lemma string_of_nat_429: "string_of_nat 429 = ''429''"
  by code_simp

section \<open>Retryable statuses use up the budget\<close>

lemma retryable_message:
  assumes "retryable_status (status res)"
  shows "isRateLimitOrTransient (JsError (api_error_message res))"
proof (cases "status res = 429")
  case True
  have "match_here (lits ''429'') (string_of_nat 429)"
    by (simp add: string_of_nat_429 lits_def)
  then have "match_somewhere (lits ''429'') (api_error_message res)"
    unfolding api_error_message_def True by (rule match_somewhere_infix)
  then show ?thesis
    by (simp add: isRateLimitOrTransient_def regex_test_def TRANSIENT_RE_def)
next
  case False
  then have r: "500 \<le> status res" "status res \<le> 599"
    using assms by (auto simp: retryable_status_def)
  have "match_here [Lit CHR ''5'', Digit, Digit] (string_of_nat (status res))"
    using r by (simp add: string_of_nat_5xx is_digit_digit_char)
  then have "match_somewhere [Lit CHR ''5'', Digit, Digit] (api_error_message res)"
    unfolding api_error_message_def by (rule match_somewhere_infix)
  then show ?thesis
    by (simp add: isRateLimitOrTransient_def regex_test_def TRANSIENT_RE_def)
qed

lemma attempt_retryable:
  assumes "net E (length (sent w)) rq = Responds res" "retryable_status (status res)"
  shows "osFetch_attempt E rq w = (Inl (JsError (api_error_message res)), w\<lparr>sent := sent w @ [rq]\<rparr>)"
proof -
  have nok: "\<not> ok res" using assms(2) by (auto simp: ok_def retryable_status_def)
  have st: "status res = 429 \<or> status res \<ge> 500" using assms(2) by (auto simp: retryable_status_def)
  have "attempt_body (Responds res) = Inl (JsError (api_error_message res))"
    using nok st by (simp add: attempt_body_def)
  then show ?thesis
    using assms(1) retryable_message[OF assms(2)]
    by (simp add: osFetch_attempt_def fetch_def)
qed



section \<open>The retry budget and the error of an exhausted call\<close>

lemma occurrences_snoc:
  "occurrences (p @ [x]) y = occurrences p y + (if message x = message y then 1 else 0)"
  by (simp add: occurrences_def)

lemma mainError_loop_inv:
  assumes "\<forall>m. (case counts m of None \<Rightarrow> 0 | Some c \<Rightarrow> c) = count_list (map message p) m"
    and "p = [] \<longrightarrow> mc = 0"
    and "p \<noteq> [] \<longrightarrow>
           (\<exists>e pre post. me = Some e \<and> p = pre @ e # post \<and> occurrences p e = mc \<and>
              (\<forall>x\<in>set p. occurrences p x \<le> mc) \<and>
              (\<forall>x\<in>set post. occurrences p x < mc))"
    and "p @ es \<noteq> []"
  shows "\<exists>e pre post. mainError_loop es counts me mc = Some e \<and> p @ es = pre @ e # post \<and>
           (\<forall>x\<in>set (p @ es). occurrences (p @ es) x \<le> occurrences (p @ es) e) \<and>
           (\<forall>x\<in>set post. occurrences (p @ es) x < occurrences (p @ es) e)"
  using assms
proof (induction es arbitrary: p counts me mc)
  case Nil
  then have "p \<noteq> []" by simp
  with Nil.prems(3) obtain e pre post where
    "me = Some e" "p = pre @ e # post" "occurrences p e = mc"
    "\<forall>x\<in>set p. occurrences p x \<le> mc" "\<forall>x\<in>set post. occurrences p x < mc"
    by blast
  then show ?case by auto
next
  case (Cons x es)
  define m where "m = message x"
  define c where "c = (case counts m of None \<Rightarrow> 0 | Some c \<Rightarrow> c) + 1"
  define counts' where "counts' = counts(m \<mapsto> c)"
  have cp: "c = occurrences p x + 1"
    using Cons.prems(1) by (simp add: c_def m_def occurrences_def)
  have cx: "occurrences (p @ [x]) x = c"
    by (simp add: occurrences_snoc cp)
  have inv1: "\<forall>m'. (case counts' m' of None \<Rightarrow> 0 | Some c \<Rightarrow> c) = count_list (map message (p @ [x])) m'"
  proof
    fix m'
    show "(case counts' m' of None \<Rightarrow> 0 | Some c \<Rightarrow> c) = count_list (map message (p @ [x])) m'"
    proof (cases "m' = m")
      case True
      then show ?thesis
        using Cons.prems(1) by (simp add: counts'_def c_def m_def)
    next
      case False
      then show ?thesis
        using Cons.prems(1) by (simp add: counts'_def m_def)
    qed
  qed
  have inv2: "p @ [x] = [] \<longrightarrow> k = 0" for k :: nat by simp
  have ne: "(p @ [x]) @ es \<noteq> []" by simp
  have unfold: "mainError_loop (x # es) counts me mc =
      (if c \<ge> mc then mainError_loop es counts' (Some x) c else mainError_loop es counts' me mc)"
    by (simp add: m_def c_def counts'_def Let_def)
  show ?case
  proof (cases "c \<ge> mc")
    case True
    have bound: "\<forall>y\<in>set p. occurrences p y \<le> mc"
    proof (cases "p = []")
      case True
      then show ?thesis by simp
    next
      case False
      with Cons.prems(3) show ?thesis by blast
    qed
    have all: "\<forall>y\<in>set (p @ [x]). occurrences (p @ [x]) y \<le> c"
    proof
      fix y assume y: "y \<in> set (p @ [x])"
      show "occurrences (p @ [x]) y \<le> c"
      proof (cases "message x = message y")
        case True
        then have "occurrences (p @ [x]) y = occurrences (p @ [x]) x"
          by (simp add: occurrences_def)
        with cx show ?thesis by simp
      next
        case False
        with y have "y \<in> set p" by auto
        with bound have "occurrences p y \<le> mc" by blast
        with False \<open>c \<ge> mc\<close> show ?thesis by (simp add: occurrences_snoc)
      qed
    qed
    have inv3: "p @ [x] \<noteq> [] \<longrightarrow>
           (\<exists>e pre post. Some x = Some e \<and> p @ [x] = pre @ e # post \<and> occurrences (p @ [x]) e = c \<and>
              (\<forall>y\<in>set (p @ [x]). occurrences (p @ [x]) y \<le> c) \<and>
              (\<forall>y\<in>set post. occurrences (p @ [x]) y < c))"
      using cx all by (intro impI exI[of _ x] exI[of _ p] exI[of _ "[]"]) simp
    from Cons.IH[OF inv1 inv2 inv3 ne] True
    show ?thesis
      unfolding unfold by simp
  next
    case False
    then have lt: "c < mc" by simp
    then have "mc \<noteq> 0" by simp
    with Cons.prems(2) have pne: "p \<noteq> []" by blast
    with Cons.prems(3) obtain e pre post where
      e: "me = Some e" "p = pre @ e # post" "occurrences p e = mc"
         "\<forall>y\<in>set p. occurrences p y \<le> mc" "\<forall>y\<in>set post. occurrences p y < mc"
      by blast
    have diff: "message x \<noteq> message e"
    proof
      assume "message x = message e"
      then have "occurrences p x = occurrences p e" by (simp add: occurrences_def)
      with cp e(3) lt show False by simp
    qed
    have small: "occurrences (p @ [x]) y < mc" if "message x = message y" for y
    proof -
      from that have "occurrences (p @ [x]) y = occurrences (p @ [x]) x" by (simp add: occurrences_def)
      with cx lt show ?thesis by simp
    qed
    have a1: "p @ [x] = pre @ e # post @ [x]" using e(2) by simp
    have a2: "occurrences (p @ [x]) e = mc" using diff e(3) by (simp add: occurrences_snoc)
    have a3: "\<forall>y\<in>set (p @ [x]). occurrences (p @ [x]) y \<le> mc"
    proof
      fix y assume y: "y \<in> set (p @ [x])"
      show "occurrences (p @ [x]) y \<le> mc"
      proof (cases "message x = message y")
        case True
        from small[OF this] show ?thesis by simp
      next
        case False
        with y have "y \<in> set p" by auto
        with e(4) False show ?thesis by (simp add: occurrences_snoc)
      qed
    qed
    have a4: "\<forall>y\<in>set (post @ [x]). occurrences (p @ [x]) y < mc"
    proof
      fix y assume y: "y \<in> set (post @ [x])"
      show "occurrences (p @ [x]) y < mc"
      proof (cases "message x = message y")
        case True
        from small[OF this] show ?thesis .
      next
        case False
        with y have "y \<in> set post" by auto
        with e(5) False show ?thesis by (simp add: occurrences_snoc)
      qed
    qed
    have inv3: "p @ [x] \<noteq> [] \<longrightarrow>
           (\<exists>e' pre' post'. me = Some e' \<and> p @ [x] = pre' @ e' # post' \<and> occurrences (p @ [x]) e' = mc \<and>
              (\<forall>y\<in>set (p @ [x]). occurrences (p @ [x]) y \<le> mc) \<and>
              (\<forall>y\<in>set post'. occurrences (p @ [x]) y < mc))"
      using e(1) a1 a2 a3 a4 by blast
    from Cons.IH[OF inv1 inv2 inv3 ne] lt
    show ?thesis
      unfolding unfold by simp
  qed
qed

lemma mainError_spec:
  assumes "errors \<noteq> []"
  shows "\<exists>e pre post. mainError errors = Some e \<and> errors = pre @ e # post \<and>
           (\<forall>x\<in>set errors. occurrences errors x \<le> occurrences errors e) \<and>
           (\<forall>x\<in>set post. occurrences errors x < occurrences errors e)"
  using mainError_loop_inv[of Map.empty "[]" 0 None errors] assms
  by (simp add: mainError_def)

lemma pRetry_exhaust:
  assumes "\<forall>i\<le>left. net E (length (sent w) + i) rq = Responds (r (k + i)) \<and> retryable_status (status (r (k + i)))"
  shows "\<exists>w'. pRetry_from isNet (osFetch_attempt E rq) onFailedAttempt n left errs w =
           (Inl (case mainError (errs @ map (\<lambda>i. JsError (api_error_message (r (k + i)))) [0..<Suc left]) of
                   None \<Rightarrow> NonError ''null'' | Some m \<Rightarrow> m), w') \<and>
         sent w' = sent w @ replicate (Suc left) rq"
  using assms
proof (induction left arbitrary: n w errs k)
  case 0
  then have r: "net E (length (sent w)) rq = Responds (r k)" "retryable_status (status (r k))"
    by auto
  show ?case
    using attempt_retryable[OF r]
    by (simp add: pRetry_from.simps[of _ _ _ n 0 errs w] onFailedAttempt_def)
next
  case (Suc left)
  from Suc.prems have r: "net E (length (sent w)) rq = Responds (r k)" "retryable_status (status (r k))"
    by force+
  let ?e = "JsError (api_error_message (r k))"
  let ?w2 = "onFailedAttempt n (Suc left) ?e (w\<lparr>sent := sent w @ [rq]\<rparr>)"
  have s2: "sent ?w2 = sent w @ [rq]" by (simp add: onFailedAttempt_def)
  have "\<forall>i\<le>left. net E (length (sent ?w2) + i) rq = Responds (r (Suc k + i)) \<and>
          retryable_status (status (r (Suc k + i)))"
  proof (intro allI impI)
    fix i assume "i \<le> left"
    then have "Suc i \<le> Suc left" by simp
    from Suc.prems[rule_format, OF this]
    show "net E (length (sent ?w2) + i) rq = Responds (r (Suc k + i)) \<and>
          retryable_status (status (r (Suc k + i)))"
      by (simp add: s2)
  qed
  from Suc.IH[OF this, of "Suc n" "errs @ [?e]"] obtain w' where
    h: "pRetry_from isNet (osFetch_attempt E rq) onFailedAttempt (Suc n) left (errs @ [?e]) ?w2 =
          (Inl (case mainError ((errs @ [?e]) @ map (\<lambda>i. JsError (api_error_message (r (Suc k + i)))) [0..<Suc left]) of
                   None \<Rightarrow> NonError ''null'' | Some m \<Rightarrow> m), w')"
       "sent w' = sent ?w2 @ replicate (Suc left) rq"
    by blast
  have idx: "map (\<lambda>i. JsError (api_error_message (r (k + i)))) [0..<Suc (Suc left)] =
             ?e # map (\<lambda>i. JsError (api_error_message (r (Suc k + i)))) [0..<Suc left]"
  proof -
    have "[0..<Suc (Suc left)] = 0 # map Suc [0..<Suc left]"
      by (simp only: map_Suc_upt upt_conv_Cons[of 0 "Suc (Suc left)"] zero_less_Suc)
    then show ?thesis by (simp add: comp_def del: upt_Suc)
  qed
  have "pRetry_from isNet (osFetch_attempt E rq) onFailedAttempt n (Suc left) errs w =
          (Inl (case mainError (errs @ map (\<lambda>i. JsError (api_error_message (r (k + i)))) [0..<Suc (Suc left)]) of
                   None \<Rightarrow> NonError ''null'' | Some m \<Rightarrow> m), w')"
    unfolding idx using attempt_retryable[OF r] h(1)
    by (simp add: pRetry_from.simps[of _ _ _ n "Suc left" errs w])
  moreover have "sent w' = sent w @ replicate (Suc (Suc left)) rq"
    using h(2) s2 by (simp add: replicate_app_Cons_same)
  ultimately show ?case by blast
qed

text \<open>
  C1, as stated, fails: the error of an exhausted call is not always the error of the last
  attempt. p-retry rejects with \<^verbatim>\<open>operation.mainError()\<close>, the error whose message occurred most
  often. With five 500 responses whose bodies are \<^verbatim>\<open>a\<close>, \<^verbatim>\<open>a\<close>, \<^verbatim>\<open>b\<close>, \<^verbatim>\<open>b\<close>, \<^verbatim>\<open>c\<close> the call
  issues five requests, the fifth is answered with body \<^verbatim>\<open>c\<close>, and the call fails with the
  error of body \<^verbatim>\<open>b\<close>.
\<close>

theorem osFetch_retryable_exhausts_counterexample:
  "fst (osFetch (sample_env bodies_aabbc) ''/api/v2/collections'' ''key'' None fresh_world) =
     Inl (JsError ''OpenSea API error 500: b'') \<and>
   length (sent (snd (osFetch (sample_env bodies_aabbc) ''/api/v2/collections'' ''key'' None fresh_world))) = 5 \<and>
   (case bodies_aabbc 4 (osFetch_request (sample_env bodies_aabbc) ''/api/v2/collections'' ''key'' None) of
      Responds res \<Rightarrow> api_error_message res | Rejects t \<Rightarrow> []) = ''OpenSea API error 500: c''"
  by code_simp

text \<open>
  C1, amended. When each of the five requests of one \<open>osFetch\<close> call is answered with a
  retryable status (429 or 5xx), the call issues exactly five requests (all for the same URL)
  and then fails with the error of one of the five attempts: one whose message occurs at
  least as often among the five as any other, and strictly more often than the message of
  any later attempt (the most frequent message, the latest attempt winning a tie). When the
  five attempts carry the same message, as with five identical 500 responses, this is the
  error of the last attempt.
\<close>

theorem osFetch_retryable_exhausts:
  assumes "\<forall>i<5. net E (length (sent w) + i) (osFetch_request E path apiKey searchParams) = Responds (r i) \<and>
             (status (r i) = 429 \<or> (500 \<le> status (r i) \<and> status (r i) \<le> 599))"
  shows "\<exists>e w' pre post.
           osFetch E path apiKey searchParams w = (Inl e, w') \<and>
           sent w' = sent w @ replicate 5 (osFetch_request E path apiKey searchParams) \<and>
           attempt_errors r = pre @ e # post \<and>
           (\<forall>x\<in>set (attempt_errors r). occurrences (attempt_errors r) x \<le> occurrences (attempt_errors r) e) \<and>
           (\<forall>x\<in>set post. occurrences (attempt_errors r) x < occurrences (attempt_errors r) e) \<and>
           ((\<forall>i<5. api_error_message (r i) = api_error_message (r 4)) \<longrightarrow> e = JsError (api_error_message (r 4)))"
proof -
  let ?rq = "osFetch_request E path apiKey searchParams"
  have "\<forall>i\<le>4. net E (length (sent w) + i) ?rq = Responds (r (0 + i)) \<and> retryable_status (status (r (0 + i)))"
  proof (intro allI impI)
    fix i :: nat assume "i \<le> 4"
    then have "i < 5" by simp
    from assms[rule_format, OF this]
    show "net E (length (sent w) + i) ?rq = Responds (r (0 + i)) \<and> retryable_status (status (r (0 + i)))"
      by (simp add: retryable_status_def)
  qed
  from pRetry_exhaust[OF this, of "isNetworkError E" 1 "[]"] obtain w' where
    p: "pRetry_from (isNetworkError E) (osFetch_attempt E ?rq) onFailedAttempt 1 4 [] w =
           (Inl (case mainError ([] @ map (\<lambda>i. JsError (api_error_message (r (0 + i)))) [0..<Suc 4]) of
                   None \<Rightarrow> NonError ''null'' | Some m \<Rightarrow> m), w')"
       "sent w' = sent w @ replicate (Suc 4) ?rq"
    by blast
  have ae: "[] @ map (\<lambda>i. JsError (api_error_message (r (0 + i)))) [0..<Suc 4] = attempt_errors r"
    by (simp add: attempt_errors_def del: upt_Suc)
  have five: "Suc 4 = (5::nat)" by simp
  have "attempt_errors r \<noteq> []" by (simp add: attempt_errors_def)
  from mainError_spec[OF this] obtain e pre post where
    e: "mainError (attempt_errors r) = Some e" "attempt_errors r = pre @ e # post"
       "\<forall>x\<in>set (attempt_errors r). occurrences (attempt_errors r) x \<le> occurrences (attempt_errors r) e"
       "\<forall>x\<in>set post. occurrences (attempt_errors r) x < occurrences (attempt_errors r) e"
    by blast
  have o: "osFetch E path apiKey searchParams w = (Inl e, w')"
    using p(1) unfolding ae e(1) by (simp add: osFetch_def pRetry_def)
  have s: "sent w' = sent w @ replicate 5 ?rq"
    using p(2) unfolding five .
  have same: "(\<forall>i<5. api_error_message (r i) = api_error_message (r 4)) \<longrightarrow> e = JsError (api_error_message (r 4))"
  proof
    assume a: "\<forall>i<5. api_error_message (r i) = api_error_message (r 4)"
    have "e \<in> set (attempt_errors r)" unfolding e(2) by simp
    then obtain i where i: "i < 5" "e = JsError (api_error_message (r i))"
      unfolding attempt_errors_def by (auto simp del: upt_Suc)
    from a[rule_format, OF i(1)] i(2) show "e = JsError (api_error_message (r 4))"
      by (simp only:)
  qed
  show ?thesis
    apply (rule exI[of _ e])
    apply (rule exI[of _ w'])
    apply (rule exI[of _ pre])
    apply (rule exI[of _ post])
    apply (intro conjI)
         apply (rule o)
        apply (rule s)
       apply (rule e(2))
      apply (rule e(3))
     apply (rule e(4))
    apply (rule same)
    done
qed

text \<open>Five consecutive identical 500 responses: five requests, then the last error.\<close>

theorem osFetch_retryable_exhausts_witness:
  "fst (osFetch (sample_env always_500) ''/api/v2/collections'' ''key'' None fresh_world)
     = Inl (JsError ''OpenSea API error 500: boom'') \<and>
   length (sent (snd (osFetch (sample_env always_500) ''/api/v2/collections'' ''key'' None fresh_world))) = 5"
proof -
  let ?E = "sample_env always_500"
  let ?rq = "osFetch_request ?E ''/api/v2/collections'' ''key'' None"
  let ?r = "\<lambda>i::nat. failure_response 500 ''boom''"
  have h: "\<forall>i<5. net ?E (length (sent fresh_world) + i) ?rq = Responds (?r i) \<and>
             (status (?r i) = 429 \<or> (500 \<le> status (?r i) \<and> status (?r i) \<le> 599))"
    by (simp add: sample_env_def always_500_def failure_response_def)
  from osFetch_retryable_exhausts[of ?E fresh_world "''/api/v2/collections''" "''key''" None ?r, OF h]
  obtain e w' where
    r: "osFetch ?E ''/api/v2/collections'' ''key'' None fresh_world = (Inl e, w')"
       "sent w' = sent fresh_world @ replicate 5 ?rq"
       "(\<forall>i<5. api_error_message (?r i) = api_error_message (?r 4)) \<longrightarrow> e = JsError (api_error_message (?r 4))"
    by blast
  have m: "api_error_message (failure_response 500 ''boom'') = ''OpenSea API error 500: boom''"
    by code_simp
  from r(3) m have "e = JsError ''OpenSea API error 500: boom''" by simp
  with r(1,2) show ?thesis by (simp add: fresh_world_def)
qed


section \<open>Terminal failures stop the retries\<close>

lemma pRetry_abort:
  assumes "osFetch_attempt E rq w = (Inl (AbortError x), w1)"
  shows "pRetry_from isNet (osFetch_attempt E rq) f n left errs w = (Inl (originalError (AbortError x)), w1)"
  using assms by (simp add: pRetry_from.simps[of _ _ _ n left errs w])

lemma attempt_terminal:
  assumes "attempt_body (net E (length (sent w)) rq) = Inl e" "\<not> isRateLimitOrTransient e"
  shows "osFetch_attempt E rq w = (Inl (AbortError e), w\<lparr>sent := sent w @ [rq]\<rparr>)"
  using assms by (simp add: osFetch_attempt_def fetch_def)

lemma message_originalError_Abort: "message (originalError (AbortError e)) = message e"
  by (cases e) auto

lemma instanceof_originalError_Abort: "instanceof_Error (originalError (AbortError e))"
  by (cases e) auto

text \<open>
  C2. A response that is not a success, not 429 and below 500 ends the call after that
  one request: no retry, and the failure carries the status and the body text.
\<close>

theorem osFetch_terminal_status:
  assumes "net E (length (sent w)) (osFetch_request E path apiKey searchParams) = Responds res"
    and "\<not> ok res" and "status res \<noteq> 429" and "status res < 500"
  shows "\<exists>err. osFetch E path apiKey searchParams w =
            (Inl err, w\<lparr>sent := sent w @ [osFetch_request E path apiKey searchParams]\<rparr>) \<and>
          instanceof_Error err \<and>
          message err = ''OpenSea API error '' @ string_of_nat (status res) @ '': '' @
                        (case body_text res of None \<Rightarrow> [] | Some t \<Rightarrow> t)"
proof -
  let ?rq = "osFetch_request E path apiKey searchParams"
  let ?err = "JsError (api_error_message res)"
  let ?w1 = "w\<lparr>sent := sent w @ [?rq]\<rparr>"
  have body: "attempt_body (net E (length (sent w)) ?rq) = Inl (AbortError ?err)"
    using assms by (simp add: attempt_body_def)
  have "\<exists>x. osFetch_attempt E ?rq w = (Inl (AbortError x), ?w1) \<and> message x = api_error_message res"
  proof (cases "isRateLimitOrTransient (AbortError ?err)")
    case True
    then have "osFetch_attempt E ?rq w = (Inl (AbortError ?err), ?w1)"
      using body by (simp add: osFetch_attempt_def fetch_def)
    then show ?thesis by simp
  next
    case False
    from attempt_terminal[OF body False] show ?thesis by simp
  qed
  then obtain x where x: "osFetch_attempt E ?rq w = (Inl (AbortError x), ?w1)" "message x = api_error_message res"
    by blast
  have "osFetch E path apiKey searchParams w = (Inl (originalError (AbortError x)), ?w1)"
    unfolding osFetch_def pRetry_def by (rule pRetry_abort[OF x(1)])
  then show ?thesis
    using x(2) by (simp add: message_originalError_Abort instanceof_originalError_Abort api_error_message_def)
qed

text \<open>A 404: one request, then the failure with status and body.\<close>

theorem osFetch_terminal_status_witness:
  "\<exists>err. fst (osFetch (sample_env always_404) ''/api/v2/collections/x'' ''key'' None fresh_world) = Inl err \<and>
     message err = ''OpenSea API error 404: not found'' \<and>
   length (sent (snd (osFetch (sample_env always_404) ''/api/v2/collections/x'' ''key'' None fresh_world))) = 1"
  using osFetch_terminal_status
    [where w = fresh_world and E = "sample_env always_404" and path = "''/api/v2/collections/x''"
       and apiKey = "''key''" and searchParams = None and res = "failure_response 404 ''not found''"]
  by (auto simp add: sample_env_def always_404_def failure_response_def fresh_world_def ok_def 
      string_of_nat.simps[of 404] string_of_nat.simps[of 40]
      string_of_nat.simps[of 4] digit_char_def)

section \<open>What the transient pattern matches\<close>

lemma match_here_Cons: "match_here (a # as) s \<longleftrightarrow> (\<exists>c cs. s = c # cs \<and> atom_matches a c \<and> match_here as cs)"
  by (cases s) auto

lemma match_somewhere_iff: "match_somewhere p s \<longleftrightarrow> (\<exists>pre t. s = pre @ t \<and> match_here p t)"
proof (induction s)
  case Nil
  show ?case by simp
next
  case (Cons c cs)
  show ?case
  proof
    assume "match_somewhere p (c # cs)"
    then consider "match_here p (c # cs)" | "match_somewhere p cs" by auto
    then show "\<exists>pre t. c # cs = pre @ t \<and> match_here p t"
    proof cases
      case 1
      then have "c # cs = [] @ (c # cs) \<and> match_here p (c # cs)" by simp
      then show ?thesis by blast
    next
      case 2
      with Cons.IH obtain pre t where "cs = pre @ t" "match_here p t" by blast
      then have "c # cs = (c # pre) @ t \<and> match_here p t" by simp
      then show ?thesis by blast
    qed
  next
    assume "\<exists>pre t. c # cs = pre @ t \<and> match_here p t"
    then obtain pre t where h: "c # cs = pre @ t" "match_here p t" by blast
    show "match_somewhere p (c # cs)"
    proof (cases pre)
      case Nil
      with h have "match_here p (c # cs)" by simp
      then show ?thesis by simp
    next
      case (Cons x xs)
      with h have "cs = xs @ t" by simp
      with h(2) Cons.IH have "match_somewhere p cs" by blast
      then show ?thesis by simp
    qed
  qed
qed

lemma match_here_lits:
  "match_here (lits p) t \<longleftrightarrow> (\<exists>u post. t = u @ post \<and> toLowerCase u = toLowerCase p)"
proof (induction p arbitrary: t)
  case Nil
  show ?case by (simp add: lits_def toLowerCase_def)
next
  case (Cons x xs)
  have IH: "\<And>t. match_here (lits xs) t \<longleftrightarrow> (\<exists>u post. t = u @ post \<and> toLowerCase u = toLowerCase xs)"
    using Cons.IH by blast
  show ?case
  proof
    assume "match_here (lits (x # xs)) t"
    then obtain c cs where c: "t = c # cs" "toLowerCase_char c = toLowerCase_char x" "match_here (lits xs) cs"
      by (auto simp: lits_def match_here_Cons)
    from c(3) IH obtain u post where "cs = u @ post" "toLowerCase u = toLowerCase xs" by blast
    with c have "t = (c # u) @ post \<and> toLowerCase (c # u) = toLowerCase (x # xs)"
      by (simp add: toLowerCase_def)
    then show "\<exists>u post. t = u @ post \<and> toLowerCase u = toLowerCase (x # xs)" by blast
  next
    assume "\<exists>u post. t = u @ post \<and> toLowerCase u = toLowerCase (x # xs)"
    then obtain u post where h: "t = u @ post" "toLowerCase u = toLowerCase (x # xs)" by blast
    then obtain c u' where u: "u = c # u'" "toLowerCase_char c = toLowerCase_char x" "toLowerCase u' = toLowerCase xs"
      by (cases u) (auto simp: toLowerCase_def)
    then have "match_here (lits xs) (u' @ post)" using IH by blast
    then show "match_here (lits (x # xs)) t"
      using h(1) u by (simp add: lits_def)
  qed
qed

lemma match_somewhere_lits:
  "match_somewhere (lits p) s \<longleftrightarrow> (\<exists>pre u post. s = pre @ u @ post \<and> toLowerCase u = toLowerCase p)"
  unfolding match_somewhere_iff match_here_lits by blast

lemma lower_digit_dest:
  "toLowerCase_char c = CHR ''4'' \<Longrightarrow> c = CHR ''4''"
  "toLowerCase_char c = CHR ''2'' \<Longrightarrow> c = CHR ''2''"
  "toLowerCase_char c = CHR ''9'' \<Longrightarrow> c = CHR ''9''"
  "toLowerCase_char c = CHR ''5'' \<Longrightarrow> c = CHR ''5''"
  by (auto simp: toLowerCase_char_def split: option.splits if_splits)

lemma lower_digit_self:
  "toLowerCase_char CHR ''4'' = CHR ''4''"
  "toLowerCase_char CHR ''2'' = CHR ''2''"
  "toLowerCase_char CHR ''9'' = CHR ''9''"
  "toLowerCase_char CHR ''5'' = CHR ''5''"
  by (simp_all add: toLowerCase_char_def)

lemma lower_digit_iff:
  "toLowerCase_char c = CHR ''4'' \<longleftrightarrow> c = CHR ''4''"
  "toLowerCase_char c = CHR ''2'' \<longleftrightarrow> c = CHR ''2''"
  "toLowerCase_char c = CHR ''9'' \<longleftrightarrow> c = CHR ''9''"
  "toLowerCase_char c = CHR ''5'' \<longleftrightarrow> c = CHR ''5''"
  using lower_digit_dest lower_digit_self by blast+

lemma toLowerCase_429: "toLowerCase u = ''429'' \<longleftrightarrow> u = ''429''"
proof
  assume "toLowerCase u = ''429''"
  then obtain a b c where u: "u = [a, b, c]" "toLowerCase_char a = CHR ''4''"
      "toLowerCase_char b = CHR ''2''" "toLowerCase_char c = CHR ''9''"
    unfolding toLowerCase_def by (auto simp only: map_eq_Cons_conv map_is_Nil_conv list.inject)
  then show "u = ''429''" by (simp only: lower_digit_iff)
next
  assume "u = ''429''"
  then show "toLowerCase u = ''429''"
    by (simp add: toLowerCase_def lower_digit_self)
qed

lemma match_here_5dd:
  "match_here [Lit CHR ''5'', Digit, Digit] t \<longleftrightarrow>
          (\<exists>d1 d2 post. t = [CHR ''5'', d1, d2] @ post \<and> is_digit d1 \<and> is_digit d2)"
proof -
  have "match_here [Lit CHR ''5'', Digit, Digit] t \<longleftrightarrow>
     (\<exists>c d1 d2 post. t = c # d1 # d2 # post \<and> toLowerCase_char c = CHR ''5'' \<and> is_digit d1 \<and> is_digit d2)"
    by (simp only: match_here_Cons atom_matches.simps lower_digit_self match_here.simps) blast
  then show ?thesis by (simp only: lower_digit_iff) auto
qed

lemma match_somewhere_5dd:
  "match_somewhere [Lit CHR ''5'', Digit, Digit] s \<longleftrightarrow>
     (\<exists>pre d1 d2 post. s = pre @ [CHR ''5'', d1, d2] @ post \<and> is_digit d1 \<and> is_digit d2)"
  unfolding match_somewhere_iff match_here_5dd by blast

lemma lower_consts:
  "toLowerCase ''429'' = ''429''" "toLowerCase ''rate'' = ''rate''"
  "toLowerCase ''timeout'' = ''timeout''" "toLowerCase ''network'' = ''network''"
  by (simp_all add: toLowerCase_def toLowerCase_char_def)

lemma regex_test_5:
  "regex_test [p1, p2, p3, p4, p5] m \<longleftrightarrow>
     match_somewhere p1 m \<or> match_somewhere p2 m \<or> match_somewhere p3 m \<or>
     match_somewhere p4 m \<or> match_somewhere p5 m"
  by (simp add: regex_test_def)

lemma regex_test_TRANSIENT:
  "regex_test TRANSIENT_RE m \<longleftrightarrow>
     (\<exists>pre post. m = pre @ ''429'' @ post) \<or>
     (\<exists>pre d1 d2 post. m = pre @ [CHR ''5'', d1, d2] @ post \<and> is_digit d1 \<and> is_digit d2) \<or>
     (\<exists>pre u post. m = pre @ u @ post \<and> toLowerCase u = ''rate'') \<or>
     (\<exists>pre u post. m = pre @ u @ post \<and> toLowerCase u = ''timeout'') \<or>
     (\<exists>pre u post. m = pre @ u @ post \<and> toLowerCase u = ''network'')"
proof -
  have a: "match_somewhere (lits ''429'') m \<longleftrightarrow> (\<exists>pre post. m = pre @ ''429'' @ post)"
    unfolding match_somewhere_lits lower_consts toLowerCase_429 by blast
  have b: "match_somewhere (lits ''rate'') m \<longleftrightarrow> (\<exists>pre u post. m = pre @ u @ post \<and> toLowerCase u = ''rate'')"
    unfolding match_somewhere_lits lower_consts by (rule refl)
  have c: "match_somewhere (lits ''timeout'') m \<longleftrightarrow> (\<exists>pre u post. m = pre @ u @ post \<and> toLowerCase u = ''timeout'')"
    unfolding match_somewhere_lits lower_consts by (rule refl)
  have d: "match_somewhere (lits ''network'') m \<longleftrightarrow> (\<exists>pre u post. m = pre @ u @ post \<and> toLowerCase u = ''network'')"
    unfolding match_somewhere_lits lower_consts by (rule refl)
  show ?thesis
    unfolding TRANSIENT_RE_def regex_test_5 a b c d match_somewhere_5dd by (rule refl)
qed

section \<open>The classification of thrown values\<close>

text \<open>
  C3, as stated, fails: a message with the token 404 is retryable in the specification's
  wording and terminal in the source, and so is the message of a connection reset.
\<close>

theorem isRateLimitOrTransient_counterexample:
  "spec_isRateLimitOrTransient (JsError ''OpenSea API error 404: not found'') \<and>
   \<not> isRateLimitOrTransient (JsError ''OpenSea API error 404: not found'') \<and>
   \<not> isRateLimitOrTransient (JsError ''read ECONNRESET'')"
  by code_simp

text \<open>
  C3, amended. A thrown value is retryable exactly when it is an \<^verbatim>\<open>Error\<close> whose message
  holds 429, or a 5 followed by two digits, or, in any letter case, rate, timeout or
  network. Anything else an attempt throws is terminal: the attempt that threw it is the
  last one, whatever the attempt number and the retries left.
\<close>

theorem isRateLimitOrTransient_iff:
  "(isRateLimitOrTransient e \<longleftrightarrow>
      instanceof_Error e \<and>
      ((\<exists>pre post. message e = pre @ ''429'' @ post) \<or>
       (\<exists>pre d1 d2 post. message e = pre @ [CHR ''5'', d1, d2] @ post \<and> is_digit d1 \<and> is_digit d2) \<or>
       (\<exists>pre u post. message e = pre @ u @ post \<and> toLowerCase u = ''rate'') \<or>
       (\<exists>pre u post. message e = pre @ u @ post \<and> toLowerCase u = ''timeout'') \<or>
       (\<exists>pre u post. message e = pre @ u @ post \<and> toLowerCase u = ''network''))) \<and>
   (attempt_body (net E (length (sent w)) rq) = Inl e \<and> \<not> isRateLimitOrTransient e \<longrightarrow>
      (\<exists>err. pRetry_from (isNetworkError E) (osFetch_attempt E rq) onFailedAttempt n left errs w =
               (Inl err, w\<lparr>sent := sent w @ [rq]\<rparr>)))"
proof (intro conjI impI)
  show "isRateLimitOrTransient e \<longleftrightarrow>
      instanceof_Error e \<and>
      ((\<exists>pre post. message e = pre @ ''429'' @ post) \<or>
       (\<exists>pre d1 d2 post. message e = pre @ [CHR ''5'', d1, d2] @ post \<and> is_digit d1 \<and> is_digit d2) \<or>
       (\<exists>pre u post. message e = pre @ u @ post \<and> toLowerCase u = ''rate'') \<or>
       (\<exists>pre u post. message e = pre @ u @ post \<and> toLowerCase u = ''timeout'') \<or>
       (\<exists>pre u post. message e = pre @ u @ post \<and> toLowerCase u = ''network''))"
    unfolding isRateLimitOrTransient_def regex_test_TRANSIENT by simp
next
  assume a: "attempt_body (net E (length (sent w)) rq) = Inl e \<and> \<not> isRateLimitOrTransient e"
  then have "osFetch_attempt E rq w = (Inl (AbortError e), w\<lparr>sent := sent w @ [rq]\<rparr>)"
    by (simp add: attempt_terminal)
  from pRetry_abort[OF this]
  show "\<exists>err. pRetry_from (isNetworkError E) (osFetch_attempt E rq) onFailedAttempt n left errs w =
               (Inl err, w\<lparr>sent := sent w @ [rq]\<rparr>)"
    by blast
qed

theorem isRateLimitOrTransient_iff_witness:
  "\<not> isRateLimitOrTransient (JsTypeError ''fetch failed'') \<and>
   (\<exists>err. osFetch (sample_env (always_rejects (JsTypeError ''fetch failed''))) ''/api/v2/collections'' ''key'' None fresh_world =
      (Inl err, fresh_world\<lparr>sent := [osFetch_request (sample_env (always_rejects (JsTypeError ''fetch failed''))) ''/api/v2/collections'' ''key'' None]\<rparr>))"
proof -
  have c: "\<not> isRateLimitOrTransient (JsTypeError ''fetch failed'')"
    by code_simp
  have b: "attempt_body (net (sample_env (always_rejects (JsTypeError ''fetch failed''))) (length (sent fresh_world))
             (osFetch_request (sample_env (always_rejects (JsTypeError ''fetch failed''))) ''/api/v2/collections'' ''key'' None))
           = Inl (JsTypeError ''fetch failed'')"
    by (simp add: sample_env_def always_rejects_def attempt_body_def)
  from isRateLimitOrTransient_iff
    [where e = "JsTypeError ''fetch failed''" and E = "sample_env (always_rejects (JsTypeError ''fetch failed''))"
       and w = fresh_world and n = 1 and left = 4 and errs = "[]"
       and rq = "osFetch_request (sample_env (always_rejects (JsTypeError ''fetch failed''))) ''/api/v2/collections'' ''key'' None"]
    b c
  show ?thesis
    by (simp add: osFetch_def pRetry_def fresh_world_def)
qed

section \<open>What one call of the client sends and returns\<close>

lemma osFetch_attempt_sent:
  "osFetch_attempt E rq w = (x, w1) \<Longrightarrow> w1 = w\<lparr>sent := sent w @ [rq]\<rparr>"
  by (auto simp: osFetch_attempt_def fetch_def split: sum.splits if_splits)

lemma osFetch_attempt_success:
  assumes "osFetch_attempt E rq w = (Inr r, w1)"
  shows "\<exists>res. net E (length (sent w)) rq = Responds res \<and> ok res \<and> body_json res = Inr (data r) \<and>
           rateLimit r = extractRateLimit (headers res)"
  using assms
  by (auto simp: osFetch_attempt_def fetch_def attempt_body_def Let_def
      split: sum.splits if_splits fetch_outcome.splits)

lemma pRetry_from_sent:
  "pRetry_from isNet (osFetch_attempt E rq) onFailedAttempt n left errs w = (x, w')
   \<Longrightarrow> \<exists>k\<le>left. sent w' = sent w @ replicate (Suc k) rq"
proof (induction left arbitrary: n w errs)
  case 0
  obtain y w1 where a: "osFetch_attempt E rq w = (y, w1)" by (cases "osFetch_attempt E rq w")
  from osFetch_attempt_sent[OF a] have w1: "w1 = w\<lparr>sent := sent w @ [rq]\<rparr>" .
  from "0.prems" a w1 have "sent w' = sent w @ [rq]"
    by (auto simp: pRetry_from.simps[of _ _ _ n 0 errs w] onFailedAttempt_def Let_def split: verdict.splits)
  then show ?case by simp
next
  case (Suc left)
  obtain y w1 where a: "osFetch_attempt E rq w = (y, w1)" by (cases "osFetch_attempt E rq w")
  from osFetch_attempt_sent[OF a] have w1: "w1 = w\<lparr>sent := sent w @ [rq]\<rparr>" .
  show ?case
  proof (cases "settle isNet y")
    case (Resolve v)
    with Suc.prems a w1 have "sent w' = sent w @ replicate (Suc 0) rq"
      by (auto simp: pRetry_from.simps[of _ _ _ n "Suc left" errs w])
    then show ?thesis by blast
  next
    case (Reject e)
    with Suc.prems a w1 have "sent w' = sent w @ replicate (Suc 0) rq"
      by (auto simp: pRetry_from.simps[of _ _ _ n "Suc left" errs w])
    then show ?thesis by blast
  next
    case (Failed e)
    let ?w2 = "onFailedAttempt n (Suc left) e w1"
    have s2: "sent ?w2 = sent w @ [rq]" using w1 by (simp add: onFailedAttempt_def)
    from Failed Suc.prems a have "pRetry_from isNet (osFetch_attempt E rq) onFailedAttempt (Suc n) left (errs @ [e]) ?w2 = (x, w')"
      by (simp add: pRetry_from.simps[of _ _ _ n "Suc left" errs w])
    from Suc.IH[OF this] obtain k where "k \<le> left" "sent w' = sent ?w2 @ replicate (Suc k) rq" by blast
    then have "Suc k \<le> Suc left \<and> sent w' = sent w @ replicate (Suc (Suc k)) rq"
      using s2 by (simp add: replicate_app_Cons_same)
    then show ?thesis by blast
  qed
qed

lemma pRetry_from_success:
  "pRetry_from isNet (osFetch_attempt E rq) onFailedAttempt n left errs w = (Inr r, w')
   \<Longrightarrow> \<exists>res. net E (length (sent w') - 1) rq = Responds res \<and> ok res \<and> body_json res = Inr (data r) \<and>
           rateLimit r = extractRateLimit (headers res)"
proof (induction left arbitrary: n w errs)
  case 0
  obtain y w1 where a: "osFetch_attempt E rq w = (y, w1)" by (cases "osFetch_attempt E rq w")
  from osFetch_attempt_sent[OF a] have w1: "w1 = w\<lparr>sent := sent w @ [rq]\<rparr>" .
  from "0.prems" a have "y = Inr r \<and> w' = w1"
    by (cases y) (auto simp: pRetry_from.simps[of _ _ _ n 0 errs w] Let_def split: verdict.splits if_splits)
  with a w1 osFetch_attempt_success[of E rq w r w1] show ?case by simp
next
  case (Suc left)
  obtain y w1 where a: "osFetch_attempt E rq w = (y, w1)" by (cases "osFetch_attempt E rq w")
  from osFetch_attempt_sent[OF a] have w1: "w1 = w\<lparr>sent := sent w @ [rq]\<rparr>" .
  show ?case
  proof (cases "settle isNet y")
    case (Resolve v)
    with Suc.prems a have "y = Inr r \<and> w' = w1"
      by (cases y) (auto simp: pRetry_from.simps[of _ _ _ n "Suc left" errs w] split: if_splits)
    with a w1 osFetch_attempt_success[of E rq w r w1] show ?thesis by simp
  next
    case (Reject e)
    with Suc.prems a show ?thesis
      by (auto simp: pRetry_from.simps[of _ _ _ n "Suc left" errs w])
  next
    case (Failed e)
    let ?w2 = "onFailedAttempt n (Suc left) e w1"
    from Failed Suc.prems a have "pRetry_from isNet (osFetch_attempt E rq) onFailedAttempt (Suc n) left (errs @ [e]) ?w2 = (Inr r, w')"
      by (simp add: pRetry_from.simps[of _ _ _ n "Suc left" errs w])
    from Suc.IH[OF this] show ?thesis .
  qed
qed

lemma osFetch_sent:
  "osFetch E path apiKey searchParams w = (x, w')
   \<Longrightarrow> \<exists>k\<le>4. sent w' = sent w @ replicate (Suc k) (osFetch_request E path apiKey searchParams)"
  unfolding osFetch_def pRetry_def by (rule pRetry_from_sent)

text \<open>
  C8. On a successful fetch the three rate-limit fields are the values of the three
  headers of the response that succeeded (the last request of the call), each \<open>None\<close>
  (\<^verbatim>\<open>null\<close>) when the header is absent, and the data is the decoded body of that response.
\<close>

theorem osFetch_rateLimit:
  assumes "osFetch E path apiKey searchParams w = (Inr r, w')"
  shows "\<exists>res. net E (length (sent w') - 1) (osFetch_request E path apiKey searchParams) = Responds res \<and>
           body_json res = Inr (data r) \<and>
           limit (rateLimit r) = headers res ''x-ratelimit-limit'' \<and>
           remaining (rateLimit r) = headers res ''x-ratelimit-remaining'' \<and>
           reset (rateLimit r) = headers res ''x-ratelimit-reset''"
proof -
  from assms obtain res where
    "net E (length (sent w') - 1) (osFetch_request E path apiKey searchParams) = Responds res"
    "body_json res = Inr (data r)" "rateLimit r = extractRateLimit (headers res)"
    unfolding osFetch_def pRetry_def using pRetry_from_success by blast
  then show ?thesis by (auto simp: extractRateLimit_def)
qed

lemma osFetch_attempt_ok:
  assumes "net E (length (sent w)) rq = Responds res" "ok res" "body_json res = Inr d"
  shows "osFetch_attempt E rq w =
           (Inr \<lparr>data = d, rateLimit = extractRateLimit (headers res)\<rparr>, w\<lparr>sent := sent w @ [rq]\<rparr>)"
  using assms by (simp add: osFetch_attempt_def fetch_def attempt_body_def)

lemma osFetch_ok:
  assumes "net E (length (sent w)) (osFetch_request E path apiKey searchParams) = Responds res"
    "ok res" "body_json res = Inr d"
  shows "osFetch E path apiKey searchParams w =
           (Inr \<lparr>data = d, rateLimit = extractRateLimit (headers res)\<rparr>,
            w\<lparr>sent := sent w @ [osFetch_request E path apiKey searchParams]\<rparr>)"
  using osFetch_attempt_ok[OF assms]
  by (simp add: osFetch_def pRetry_def pRetry_from.simps[of _ _ _ _ 4 _ w])

lemma osFetch_only_remaining:
  "osFetch (sample_env only_remaining) ''/api/v2/collections'' ''key'' None fresh_world =
     (Inr \<lparr>data = JObj [(''next'', JStr ''c2'')],
           rateLimit = \<lparr>limit = None, remaining = Some ''42'', reset = None\<rparr>\<rparr>,
      fresh_world\<lparr>sent := [osFetch_request (sample_env only_remaining) ''/api/v2/collections'' ''key'' None]\<rparr>)"
  using osFetch_ok[where E = "sample_env only_remaining" and w = fresh_world and path = "''/api/v2/collections''"
      and apiKey = "''key''" and searchParams = None
      and res = "success_response [''x-ratelimit-remaining'' \<mapsto> ''42''] (JObj [(''next'', JStr ''c2'')])"
      and d = "JObj [(''next'', JStr ''c2'')]"]
  by (simp add: sample_env_def only_remaining_def success_response_def ok_def fresh_world_def
      extractRateLimit_def)

text \<open>A response that carries only \<^verbatim>\<open>x-ratelimit-remaining\<close>.\<close>

theorem osFetch_rateLimit_witness:
  "osFetch (sample_env only_remaining) ''/api/v2/collections'' ''key'' None fresh_world =
     (Inr \<lparr>data = JObj [(''next'', JStr ''c2'')],
           rateLimit = \<lparr>limit = None, remaining = Some ''42'', reset = None\<rparr>\<rparr>,
      fresh_world\<lparr>sent := [osFetch_request (sample_env only_remaining) ''/api/v2/collections'' ''key'' None]\<rparr>) \<and>
   (\<exists>res. only_remaining 0 (osFetch_request (sample_env only_remaining) ''/api/v2/collections'' ''key'' None) = Responds res \<and>
      headers res ''x-ratelimit-limit'' = None \<and>
      headers res ''x-ratelimit-remaining'' = Some ''42'' \<and>
      headers res ''x-ratelimit-reset'' = None)"
  using osFetch_only_remaining osFetch_rateLimit[OF osFetch_only_remaining]
  by (auto simp add: sample_env_def fresh_world_def)

section \<open>The query string\<close>

lemma searchParams_set_fresh:
  "k \<notin> fst ` set sp \<Longrightarrow> searchParams_set k v sp = sp @ [(k, v)]"
  by (induction sp) auto

text \<open>The pairs the loop writes: the defined entries, in order, stringified.\<close>

lemma set_entries_acc:
  "distinct (map fst es) \<Longrightarrow> fst ` set sp \<inter> fst ` set es = {} \<Longrightarrow>
   set_entries es sp = sp @ List.map_filter (\<lambda>(k, v). map_option (\<lambda>x. (k, String_qval x)) v) es"
proof (induction es arbitrary: sp)
  case Nil
  show ?case by (simp add: List.map_filter_simps)
next
  case (Cons e es)
  obtain k v where e: "e = (k, v)" by (cases e)
  show ?case
  proof (cases v)
    case None
    have "set_entries es sp = sp @ List.map_filter (\<lambda>(k, v). map_option (\<lambda>x. (k, String_qval x)) v) es"
      using Cons.prems by (intro Cons.IH) (auto simp: e)
    then show ?thesis by (simp add: e None List.map_filter_simps)
  next
    case (Some x)
    have fresh: "k \<notin> fst ` set sp" using Cons.prems(2) by (auto simp: e)
    have "set_entries es (sp @ [(k, String_qval x)]) =
            (sp @ [(k, String_qval x)]) @ List.map_filter (\<lambda>(k, v). map_option (\<lambda>x. (k, String_qval x)) v) es"
      using Cons.prems by (intro Cons.IH) (auto simp: e)
    then show ?thesis by (simp add: e Some List.map_filter_simps searchParams_set_fresh[OF fresh])
  qed
qed

lemma path_query_none:
  "CHR ''?'' \<notin> set (before_fragment path) \<Longrightarrow> path_query path = []"
proof -
  assume "CHR ''?'' \<notin> set (before_fragment path)"
  then have "dropWhile (\<lambda>c. c \<noteq> CHR ''?'') (before_fragment path) = []"
    unfolding dropWhile_eq_Nil_conv by blast
  then show "path_query path = []" by (simp only: path_query_def drop_Nil)
qed

lemma url_input_slash:
  assumes "take 1 path = ''/''"
  shows "\<exists>rest. url_input path = CHR ''/'' # rest"
proof -
  from assms obtain rest where p: "path = CHR ''/'' # rest" by (cases path) auto
  have n: "\<not> c0_or_space CHR ''/''" by (simp add: c0_or_space_def)
  have t: "\<not> tab_or_newline CHR ''/''" by (simp add: tab_or_newline_def)
  have "dropWhile c0_or_space path = CHR ''/'' # rest" using n by (simp add: p)
  moreover have "dropWhile c0_or_space (rev (CHR ''/'' # rest)) =
                 dropWhile c0_or_space (rev rest) @ [CHR ''/'']"
    using n dropWhile_append3[of c0_or_space "CHR ''/''" "rev rest" "[]"] by simp
  ultimately show ?thesis using t by (simp add: url_input_def)
qed

lemma url_input_subset: "set (url_input path) \<subseteq> set path"
proof -
  have "set (dropWhile c0_or_space (rev (dropWhile c0_or_space path))) \<subseteq> set (rev (dropWhile c0_or_space path))"
    by (meson set_dropWhileD subsetI)
  moreover have "set (rev (dropWhile c0_or_space path)) \<subseteq> set path"
    using set_dropWhileD[of _ c0_or_space path] by auto
  ultimately show ?thesis by (auto simp: url_input_def)
qed

lemma url_query_none:
  assumes "take 1 path = ''/''" "CHR ''?'' \<notin> set path"
  shows "parse_query (url_query base path) = []"
proof -
  from url_input_slash[OF assms(1)] obtain rest where i: "url_input path = CHR ''/'' # rest" by blast
  have "CHR ''?'' \<notin> set (url_input path)" using assms(2) url_input_subset by blast
  then have "CHR ''?'' \<notin> set (before_fragment (url_input path))"
    unfolding before_fragment_def by (meson set_takeWhileD)
  from path_query_none[OF this] have "url_query base path = []"
    by (simp add: url_query_def i)
  then show ?thesis by (simp add: parse_query_def)
qed

lemma build_url_query:
  assumes "distinct (map fst es)" "take 1 path = ''/''" "CHR ''?'' \<notin> set path"
  shows "url_searchParams (build_url base path (Some es)) =
           List.map_filter (\<lambda>(k, v). map_option (\<lambda>x. (k, String_qval x)) v) es"
  using set_entries_acc[OF assms(1), of "[]"] url_query_none[OF assms(2,3)] by (simp add: build_url_def)

lemma query_entries:
  assumes "distinct (map fst es)" "take 1 path = ''/''" "CHR ''?'' \<notin> set path"
  shows "(k, s) \<in> set (url_searchParams (build_url base path (Some es))) \<longleftrightarrow>
           (\<exists>v. (k, Some v) \<in> set es \<and> s = String_qval v)"
  unfolding build_url_query[OF assms] List.map_filter_def by force

lemma query_omits:
  assumes "distinct (map fst es)" "take 1 path = ''/''" "CHR ''?'' \<notin> set path" "(k, None) \<in> set es"
  shows "k \<notin> fst ` set (url_searchParams (build_url base path (Some es)))"
proof
  assume "k \<in> fst ` set (url_searchParams (build_url base path (Some es)))"
  then obtain s where "(k, s) \<in> set (url_searchParams (build_url base path (Some es)))" by force
  then obtain v where "(k, Some v) \<in> set es" using query_entries[OF assms(1,2,3)] by blast
  with assms show False by (meson eq_key_imp_eq_value option.distinct(1))
qed

lemma plugin_osFetch_sent:
  "sent (snd (plugin_osFetch E path params w)) = sent w @ [plugin_request E path params]"
  by (auto simp: plugin_osFetch_def fetch_def split: fetch_outcome.splits sum.splits)

text \<open>
  C9, as stated, fails: \<^verbatim>\<open>new URL\<close> keeps a query that the path itself carries, and the loop
  only skips the undefined value, it does not remove the key. A path with
  \<^verbatim>\<open>?cursor=undefined\<close> and the mapping \<^verbatim>\<open>{cursor: undefined}\<close> give a request whose query says
  \<^verbatim>\<open>cursor=undefined\<close>; the wallet tool builds such a path from a default wallet taken from
  the environment, which no schema checks.
\<close>

theorem query_omits_undefined_counterexample:
  "map (url_searchParams \<circ> request_url)
     (sent (snd (osFetch (sample_env (always_ok (JObj []))) ''/api/v2/collections?cursor=undefined'' ''key''
                   (Some [(''cursor'', None)]) fresh_world))) =
     [[(''cursor'', ''undefined'')]] \<and>
   map (url_searchParams \<circ> request_url)
     (sent (snd (get_wallet_nfts query_wallet_env ''key'' (JObj []) fresh_world))) =
     [[(''cursor'', ''undefined''), (''x'', ''/nfts'')]]"
  by code_simp

text \<open>
  C9, amended. For a path that begins with a slash and holds no question mark, every
  request that either client issues for a query-parameter mapping (an object: its keys are
  distinct) carries a query string in which a key mapped to \<^verbatim>\<open>undefined\<close> does not occur,
  every key with a defined value occurs with that value stringified, and nothing else
  occurs; each call issues at least one request.
\<close>

theorem query_omits_undefined:
  assumes "distinct (map fst es)" and "take 1 path = ''/''" and "CHR ''?'' \<notin> set path"
  shows "drop (length (sent w)) (sent (snd (osFetch E path apiKey (Some es) w))) \<noteq> [] \<and>
         drop (length (sent w)) (sent (snd (plugin_osFetch E path (Some es) w))) \<noteq> [] \<and>
         (\<forall>rq \<in> set (drop (length (sent w)) (sent (snd (osFetch E path apiKey (Some es) w)))) \<union>
                  set (drop (length (sent w)) (sent (snd (plugin_osFetch E path (Some es) w)))).
            (\<forall>k. (k, None) \<in> set es \<longrightarrow> k \<notin> fst ` set (url_searchParams (request_url rq))) \<and>
            (\<forall>k v. (k, Some v) \<in> set es \<longrightarrow> (k, String_qval v) \<in> set (url_searchParams (request_url rq))) \<and>
            (\<forall>k s. (k, s) \<in> set (url_searchParams (request_url rq)) \<longrightarrow>
                     (\<exists>v. (k, Some v) \<in> set es \<and> s = String_qval v)))"
proof -
  obtain x w' where o: "osFetch E path apiKey (Some es) w = (x, w')"
    by (cases "osFetch E path apiKey (Some es) w")
  from osFetch_sent[OF o] obtain n where
    n: "sent w' = sent w @ replicate (Suc n) (osFetch_request E path apiKey (Some es))" by blast
  have d: "drop (length (sent w)) (sent w') = replicate (Suc n) (osFetch_request E path apiKey (Some es))"
    unfolding n by simp
  then have a: "set (drop (length (sent w)) (sent (snd (osFetch E path apiKey (Some es) w)))) =
                 {osFetch_request E path apiKey (Some es)}"
    unfolding o by (auto simp del: replicate.simps)
  have a': "drop (length (sent w)) (sent (snd (osFetch E path apiKey (Some es) w))) \<noteq> []"
    unfolding o using d by simp
  have b: "drop (length (sent w)) (sent (snd (plugin_osFetch E path (Some es) w))) =
             [plugin_request E path (Some es)]"
    by (simp add: plugin_osFetch_sent)
  have u: "request_url rq = build_url (BASE E) path (Some es)"
    if "rq \<in> set (drop (length (sent w)) (sent (snd (osFetch E path apiKey (Some es) w)))) \<union>
              set (drop (length (sent w)) (sent (snd (plugin_osFetch E path (Some es) w))))" for rq
    using that unfolding a b by (auto simp: osFetch_request_def plugin_request_def)
  have b': "drop (length (sent w)) (sent (snd (plugin_osFetch E path (Some es) w))) \<noteq> []"
    unfolding b by simp
  show ?thesis
  proof (intro conjI ballI allI impI)
    show "drop (length (sent w)) (sent (snd (osFetch E path apiKey (Some es) w))) \<noteq> []" by (rule a')
    show "drop (length (sent w)) (sent (snd (plugin_osFetch E path (Some es) w))) \<noteq> []" by (rule b')
  next
    fix rq k
    assume "rq \<in> set (drop (length (sent w)) (sent (snd (osFetch E path apiKey (Some es) w)))) \<union>
              set (drop (length (sent w)) (sent (snd (plugin_osFetch E path (Some es) w))))"
      and "(k, None) \<in> set es"
    then show "k \<notin> fst ` set (url_searchParams (request_url rq))"
      using query_omits[OF assms(1,2,3)] u by simp
  next
    fix rq k v
    assume "rq \<in> set (drop (length (sent w)) (sent (snd (osFetch E path apiKey (Some es) w)))) \<union>
              set (drop (length (sent w)) (sent (snd (plugin_osFetch E path (Some es) w))))"
      and "(k, Some v) \<in> set es"
    then show "(k, String_qval v) \<in> set (url_searchParams (request_url rq))"
      using query_entries[OF assms(1,2,3)] u by metis
  next
    fix rq k s
    assume "rq \<in> set (drop (length (sent w)) (sent (snd (osFetch E path apiKey (Some es) w)))) \<union>
              set (drop (length (sent w)) (sent (snd (plugin_osFetch E path (Some es) w))))"
      and "(k, s) \<in> set (url_searchParams (request_url rq))"
    then show "\<exists>v. (k, Some v) \<in> set es \<and> s = String_qval v"
      using query_entries[OF assms(1,2,3)] u by metis
  qed
qed

text \<open>A mapping with an undefined cursor: the plugin's request has no such key.\<close>

theorem query_omits_undefined_witness:
  "\<exists>rq. rq \<in> set (sent (snd (plugin_osFetch (sample_env always_404) ''/api/v2/collections'' (Some sample_query) fresh_world))) \<and>
     ''cursor'' \<notin> fst ` set (url_searchParams (request_url rq)) \<and>
     (''limit'', ''20'') \<in> set (url_searchParams (request_url rq)) \<and>
     (''next'', ''abc'') \<in> set (url_searchParams (request_url rq))"
proof -
  have d: "distinct (map fst sample_query)" by (simp add: sample_query_def)
  have m: "(''cursor'', None) \<in> set sample_query" "(''limit'', Some (QNum 20)) \<in> set sample_query"
    "(''next'', Some (QStr ''abc'')) \<in> set sample_query"
    by (simp_all add: sample_query_def)
  have s: "String_qval (QNum 20) = ''20''"
    by (simp add: String_num_def string_of_nat.simps[of 20] string_of_nat.simps[of 2] digit_char_def)
  have p: "take 1 ''/api/v2/collections'' = ''/''" by simp
  have q: "CHR ''?'' \<notin> set ''/api/v2/collections''" by simp
  note t = query_omits_undefined[OF d p q, where w = fresh_world and E = "sample_env always_404"
      and apiKey = "''key''"]
  note ne = t[THEN conjunct2, THEN conjunct1]
  note all = t[THEN conjunct2, THEN conjunct2]
  define rq where "rq = hd (drop (length (sent fresh_world))
      (sent (snd (plugin_osFetch (sample_env always_404) ''/api/v2/collections'' (Some sample_query) fresh_world))))"
  have rq: "rq \<in> set (drop (length (sent fresh_world))
            (sent (snd (plugin_osFetch (sample_env always_404) ''/api/v2/collections'' (Some sample_query) fresh_world))))"
    unfolding rq_def using ne by (rule hd_in_set)
  then have u: "rq \<in> set (drop (length (sent fresh_world))
            (sent (snd (osFetch (sample_env always_404) ''/api/v2/collections'' ''key'' (Some sample_query) fresh_world)))) \<union>
         set (drop (length (sent fresh_world))
            (sent (snd (plugin_osFetch (sample_env always_404) ''/api/v2/collections'' (Some sample_query) fresh_world))))"
    by (rule UnI2)
  note c = bspec[OF all u]
  note c1 = c[THEN conjunct1, rule_format]
  note c2 = c[THEN conjunct2, THEN conjunct1, rule_format]
  have r1: "''cursor'' \<notin> fst ` set (url_searchParams (request_url rq))" by (rule c1[OF m(1)])
  have r2: "(''limit'', String_qval (QNum 20)) \<in> set (url_searchParams (request_url rq))" by (rule c2[OF m(2)])
  have r3: "(''next'', String_qval (QStr ''abc'')) \<in> set (url_searchParams (request_url rq))" by (rule c2[OF m(3)])
  have rq': "rq \<in> set (sent (snd (plugin_osFetch (sample_env always_404) ''/api/v2/collections'' (Some sample_query) fresh_world)))"
    using rq by (rule in_set_dropD)
  have r2': "(''limit'', ''20'') \<in> set (url_searchParams (request_url rq))"
    using r2 unfolding s .
  have r3': "(''next'', ''abc'') \<in> set (url_searchParams (request_url rq))"
    using r3 unfolding String_qval.simps .
  from rq' r1 r2' r3' show ?thesis by (intro exI[of _ rq] conjI)
qed

section \<open>The Magic Eden plugin is a stub\<close>


section \<open>The registry\<close>

lemma distinct_registerNftPlugin:
  "distinct (map fst reg) \<Longrightarrow> distinct (map fst (registerNftPlugin p reg))"
  by (simp add: registerNftPlugin_def distinct_update)

lemma distinct_register_all_from:
  "distinct (map fst reg) \<Longrightarrow> distinct (map fst (register_all ps reg))"
  unfolding register_all_def
  by (induction ps arbitrary: reg) (simp_all add: distinct_registerNftPlugin)

lemma getNftPlugin_register:
  "getNftPlugin (registerNftPlugin p reg) k = (if k = plugin_id p then Some p else getNftPlugin reg k)"
  by (simp add: getNftPlugin_def registerNftPlugin_def update_conv')

lemma filter_update_distinct:
  "distinct (map fst al) \<Longrightarrow> filter (\<lambda>e. fst e = k) (AList.update k v al) = [(k, v)]"
proof (induction al)
  case Nil
  show ?case by simp
next
  case (Cons a al)
  show ?case
  proof (cases "fst a = k")
    case True
    with Cons.prems have "k \<notin> fst ` set al" by auto
    then have "filter (\<lambda>e. fst e = k) al = []" by (auto simp: filter_empty_conv)
    with True show ?thesis by (cases a) simp
  next
    case False
    with Cons show ?thesis by (cases a) simp
  qed
qed

text \<open>
  C5. In the registry of a process (any sequence of registrations from the empty one),
  keys stay distinct, so an id holds at most one implementation; registering a second
  implementation under the id of a first leaves exactly the second under that id.
\<close>

theorem registry_last_writer_wins:
  assumes "plugin_id p1 = plugin_id p2"
  shows "getNftPlugin (registerNftPlugin p2 (registerNftPlugin p1 (register_all ps empty_registry))) (plugin_id p1) = Some p2 \<and>
         filter (\<lambda>e. fst e = plugin_id p1)
           (registerNftPlugin p2 (registerNftPlugin p1 (register_all ps empty_registry))) = [(plugin_id p1, p2)] \<and>
         distinct (map fst (register_all ps empty_registry)) \<and>
         distinct (map fst (registerNftPlugin p2 (registerNftPlugin p1 (register_all ps empty_registry))))"
proof -
  have d: "distinct (map fst (register_all ps empty_registry))"
    by (rule distinct_register_all_from) (simp add: empty_registry_def)
  have d1: "distinct (map fst (registerNftPlugin p1 (register_all ps empty_registry)))"
    using d by (rule distinct_registerNftPlugin)
  have "filter (\<lambda>e. fst e = plugin_id p1)
           (registerNftPlugin p2 (registerNftPlugin p1 (register_all ps empty_registry))) = [(plugin_id p1, p2)]"
    using filter_update_distinct[OF d1, of "plugin_id p2" p2] assms by (simp add: registerNftPlugin_def)
  then show ?thesis
    using d d1 assms by (simp add: getNftPlugin_register distinct_registerNftPlugin)
qed

text \<open>Two implementations under the id of the OpenSea plugin, after the Magic Eden plugin.\<close>

theorem registry_last_writer_wins_witness:
  "getNftPlugin (registerNftPlugin (stub_plugin (JArr [])) (registerNftPlugin (stub_plugin (JArr [JNull]))
      (register_all [MagicEdenPlugin] empty_registry))) ''opensea'' = Some (stub_plugin (JArr [])) \<and>
   length (registerNftPlugin (stub_plugin (JArr [])) (registerNftPlugin (stub_plugin (JArr [JNull]))
      (register_all [MagicEdenPlugin] empty_registry))) = 2"
proof -
  have i: "plugin_id (stub_plugin (JArr [JNull])) = plugin_id (stub_plugin (JArr []))"
    by (simp add: stub_plugin_def)
  have n: "plugin_id (stub_plugin (JArr [JNull])) = ''opensea''"
    by (simp add: stub_plugin_def)
  from registry_last_writer_wins[OF i, of "[MagicEdenPlugin]"] n
  have "getNftPlugin (registerNftPlugin (stub_plugin (JArr [])) (registerNftPlugin (stub_plugin (JArr [JNull]))
      (register_all [MagicEdenPlugin] empty_registry))) ''opensea'' = Some (stub_plugin (JArr []))"
    by simp
  moreover have "length (registerNftPlugin (stub_plugin (JArr [])) (registerNftPlugin (stub_plugin (JArr [JNull]))
      (register_all [MagicEdenPlugin] empty_registry))) = 2"
    by (simp add: registerNftPlugin_def register_all_def empty_registry_def stub_plugin_def MagicEdenPlugin_def)
  ultimately show ?thesis by simp
qed

section \<open>Schemas: what a successful parse guarantees\<close>

lemma min1_Some: "min1 path msg v = (iss, Some s) \<Longrightarrow> s \<noteq> []"
  by (auto simp: min1_def split: if_splits)

lemma CollectionSlugSchema_optional_Some:
  "CollectionSlugSchema_optional path v = (iss, Some s) \<Longrightarrow> s \<noteq> []"
  by (induction path v rule: CollectionSlugSchema_optional.induct) (auto dest: min1_Some)

lemma orElse_Some: "orElse a b = Some x \<Longrightarrow> a = Some x \<or> b = Some x"
  by (auto simp: orElse_def split: option.splits)

lemma GetAssetListingsSchemaRaw_success:
  assumes "GetAssetListingsSchemaRaw unparsed = Inr d"
  shows "truthy_string (contract_address d) \<and> truthy_string (token_id d) \<and>
         (\<forall>s. collection_slug d = Some s \<longrightarrow> s \<noteq> [])"
proof -
  from assms obtain kvs where u: "unparsed = JObj kvs"
    by (cases unparsed) (auto simp: GetAssetListingsSchemaRaw_def)
  let ?i = "map_of kvs"
  obtain i1 a1 where p1: "EthAddressSchema_optional [''contract_address''] (?i ''contract_address'') = (i1, a1)" by force
  obtain i2 a2 where p2: "EthAddressSchema_optional [''contractAddress''] (?i ''contractAddress'') = (i2, a2)" by force
  obtain i3 t1 where p3: "TokenIdSchema_optional [''token_id''] (?i ''token_id'') = (i3, t1)" by force
  obtain i4 t2 where p4: "TokenIdSchema_optional [''tokenId''] (?i ''tokenId'') = (i4, t2)" by force
  obtain i5 s1 where p5: "CollectionSlugSchema_optional [''collection_slug''] (?i ''collection_slug'') = (i5, s1)" by force
  obtain i6 s2 where p6: "CollectionSlugSchema_optional [''collectionSlug''] (?i ''collectionSlug'') = (i6, s2)" by force
  obtain i7 f1 where p7: "z_boolean_optional [''fallback_to_collection''] (?i ''fallback_to_collection'') = (i7, f1)" by force
  obtain i8 f2 where p8: "z_boolean_optional [''fallbackToCollection''] (?i ''fallbackToCollection'') = (i8, f2)" by force
  obtain i9 lim where p9: "z_number_optional [''limit''] (?i ''limit'') = (i9, lim)" by force
  obtain i10 cur where p10: "z_string_optional [''cursor''] (?i ''cursor'') = (i10, cur)" by force
  let ?d = "\<lparr>contract_address = orElse a1 a2, token_id = orElse t1 t2, collection_slug = orElse s1 s2,
             fallback_to_collection = orElse f1 f2, limit_arg = lim, cursor_arg = cur\<rparr>"
  from assms have r: "d = ?d \<and> truthy_string (orElse a1 a2) \<and> truthy_string (orElse t1 t2)"
    unfolding GetAssetListingsSchemaRaw_def u
    by (simp add: p1 p2 p3 p4 p5 p6 p7 p8 p9 p10 Let_def split: if_splits)
  have "s \<noteq> []" if "orElse s1 s2 = Some s" for s
    using orElse_Some[OF that] p5 p6 CollectionSlugSchema_optional_Some by blast
  with r show ?thesis by simp
qed

lemma truthy_or_Some: "truthy_string (Some s) \<Longrightarrow> truthy_or (Some s) d = s"
  by (simp add: truthy_string_def truthy_or_def)

section \<open>The fallback of the asset listings tool\<close>

text \<open>
  C4, as stated, fails twice. With a malformed contract address next to the opt-in and the
  slug, the schema rejects the arguments, the handler falls back to its defaults and drops
  the opt-in: the output is the empty plugin result, untagged, and no request is issued.
  With valid arguments, when the collection-scoped request fails (a 404) the failure is
  swallowed and the output is the untagged result of the asset-scoped request.
\<close>

theorem get_listings_by_asset_fallback_counterexample:
  "get_listings_by_asset (sample_env (always_ok (JObj []))) ''key'' (Some [(''opensea'', stub_plugin (JArr []))])
     (JObj [(''contract_address'', JStr ''0x123''), (''fallback_to_collection'', JBool True),
            (''collection_slug'', JStr ''some-collection'')]) fresh_world
   = (Inr (JObj [(''data'', JObj [(''orders'', JArr [])])]), fresh_world) \<and>
   fst (get_listings_by_asset (sample_env (first_404_then_ok (JObj [(''orders'', JArr [JStr ''order-1''])]))) ''key''
     (Some [(''opensea'', stub_plugin (JArr []))])
     (JObj [(''contract_address'', JStr ''0xe6270e46c9f99f00d459ca707298d8679f44b9ae''), (''token_id'', JNum 13),
            (''fallback_to_collection'', JBool True),
            (''collection_slug'', JStr ''some-collection'')]) fresh_world)
   = Inr (JObj [(''rateLimit'', JObj [(''limit'', JNull), (''remaining'', JNull), (''reset'', JNull)]),
                (''nextCursor'', JNull), (''data'', JObj [(''orders'', JArr [JStr ''order-1''])])])"
  by code_simp

text \<open>
  C4, amended. When the arguments pass the schema of the tool, the opt-in is true, a slug
  is given, the registered plugin named opensea answers the listings query for the asset
  with the empty sequence, and the collection-scoped fetch succeeds, the tool returns the
  result of that fetch tagged \<^verbatim>\<open>fallback: "collection_listings"\<close>.
\<close>

theorem get_listings_by_asset_fallback:
  assumes "getNftPlugin reg ''opensea'' = Some plugin"
    and "GetAssetListingsSchemaRaw unparsed = Inr d"
    and "contract_address d = Some c" and "token_id d = Some t"
    and "fallback_to_collection d = Some True" and "collection_slug d = Some slug"
    and "getListings plugin \<lparr>contractAddress = c, tokenId = QStr t, chainId = 42161\<rparr> w = (Inr (JArr []), w_plugin)"
    and "osFetch E ''/api/v2/orders/arbitrum/seaport/listings'' apiKey
           (Some (collection_params slug (limit_arg d) (cursor_arg d))) w_plugin = (Inr colResult, w_final)"
  shows "get_listings_by_asset E apiKey (Some reg) unparsed w =
           (Inr (JObj [(''rateLimit'', json_of_rateLimit (rateLimit colResult)),
                       (''nextCursor'', nextCursor_of (data colResult)),
                       (''data'', data colResult),
                       (''fallback'', JStr ''collection_listings'')]), w_final)"
proof -
  from GetAssetListingsSchemaRaw_success[OF assms(2)] assms(3,4,6)
  have ne: "truthy_string (Some c)" "truthy_string (Some t)" "slug \<noteq> []" by auto
  have fs: "fallback_slug (Some True) (Some slug) = Some slug"
    using ne(3) by (simp add: fallback_slug_def)
  have path: "''/api/v2/orders/'' @ ARBITRUM_CHAIN @ ''/seaport/'' @ ''listings'' = ''/api/v2/orders/arbitrum/seaport/listings''"
    by (simp add: ARBITRUM_CHAIN_def)
  have "plugin_path ''listings'' ''collection_listings'' getListings E apiKey (Some reg) c t (Some slug) (Some True)
          (limit_arg d) (cursor_arg d) w = (Some (fallback_envelope ''collection_listings'' colResult), w_final)"
    unfolding plugin_path_def path using assms(1,7,8) fs by simp
  then show ?thesis
    unfolding get_listings_by_asset_def orders_by_asset_def
    using assms(2,3,4,5,6) truthy_or_Some[OF ne(1)] truthy_or_Some[OF ne(2)]
    by (simp add: fallback_envelope_def)
qed

section \<open>The envelope of the read tools\<close>

lemma get_wallet_nfts_keys:
  "get_wallet_nfts E apiKey unparsed w = (Inr out, w') \<Longrightarrow> keys_of out = envelope_keys"
  by (auto simp: get_wallet_nfts_def Let_def keys_of_def envelope_keys_def split: prod.splits sum.splits)

lemma get_collection_keys:
  "get_collection E apiKey unparsed w = (Inr out, w') \<Longrightarrow> keys_of out = [''rateLimit'', ''data'']"
  by (auto simp: get_collection_def Let_def keys_of_def split: prod.splits sum.splits)

lemma list_arbitrum_collections_keys:
  "list_arbitrum_collections E apiKey lim cursor w = (Inr out, w') \<Longrightarrow> keys_of out = envelope_keys"
  by (auto simp: list_arbitrum_collections_def Let_def keys_of_def envelope_keys_def split: prod.splits sum.splits)

lemma get_listings_by_collection_keys:
  "get_listings_by_collection E apiKey unparsed w = (Inr out, w') \<Longrightarrow> keys_of out = envelope_keys"
  by (auto simp: get_listings_by_collection_def Let_def keys_of_def envelope_keys_def split: prod.splits sum.splits)

lemma fallback_slug_None [simp]: "fallback_slug None None = None"
  by (simp add: fallback_slug_def)

lemma orders_by_asset_unfold:
  "orders_by_asset endpoint tag query schema E apiKey module unparsed w =
     (case schema unparsed of
        Inr d \<Rightarrow>
          (case plugin_path endpoint tag query E apiKey module
                  (truthy_or (contract_address d) DEFAULTS_contract)
                  (truthy_or (token_id d) DEFAULTS_token_id)
                  (collection_slug d) (fallback_to_collection d) (limit_arg d) (cursor_arg d) w of
             (Some out, w1) \<Rightarrow> (Inr out, w1)
           | (None, w1) \<Rightarrow>
               http_path endpoint tag E apiKey (truthy_or (contract_address d) DEFAULTS_contract)
                 (truthy_or (token_id d) DEFAULTS_token_id)
                 (collection_slug d) (fallback_to_collection d) (limit_arg d) (cursor_arg d) w1)
      | Inl iss \<Rightarrow>
          (case plugin_path endpoint tag query E apiKey module DEFAULTS_contract DEFAULTS_token_id
                  None None None None w of
             (Some out, w1) \<Rightarrow> (Inr out, w1)
           | (None, w1) \<Rightarrow>
               http_path endpoint tag E apiKey DEFAULTS_contract DEFAULTS_token_id None None None None w1))"
  by (cases "schema unparsed") (auto simp: orders_by_asset_def Let_def split: prod.splits option.splits)

lemma plugin_path_answer:
  assumes "getNftPlugin reg ''opensea'' = Some plugin"
    and "query plugin \<lparr>contractAddress = contract, tokenId = QStr token, chainId = 42161\<rparr> w = (Inr orders, w1)"
    and "orders \<noteq> JArr [] \<or> fallback_slug fb slug = None"
  shows "plugin_path endpoint tag query E apiKey (Some reg) contract token slug fb lim cursor w =
           (Some (JObj [(''data'', JObj [(''orders'', orders)])]), w1)"
  using assms by (auto simp: plugin_path_def)

lemma plugin_path_other:
  assumes "plugin_path endpoint tag query E apiKey module contract token slug fb lim cursor w = (Some out, w')"
    and "\<not> (\<exists>reg plugin orders w1. module = Some reg \<and> getNftPlugin reg ''opensea'' = Some plugin \<and>
              query plugin \<lparr>contractAddress = contract, tokenId = QStr token, chainId = 42161\<rparr> w = (Inr orders, w1) \<and>
              (orders \<noteq> JArr [] \<or> fallback_slug fb slug = None))"
  shows "keys_of out = envelope_keys @ [''fallback''] \<and> fallback_slug fb slug \<noteq> None"
  using assms
  by (auto simp: plugin_path_def keys_of_def envelope_keys_def fallback_envelope_def
      split: option.splits prod.splits sum.splits if_splits)

lemma http_path_keys_opted:
  assumes "http_path endpoint tag E apiKey contract token slug fb lim cursor w = (Inr out, w')"
  shows "(keys_of out = envelope_keys \<or> keys_of out = envelope_keys @ [''fallback'']) \<and>
         (fallback_slug fb slug = None \<longrightarrow> keys_of out = envelope_keys)"
  using assms
  by (auto simp: http_path_def keys_of_def envelope_keys_def fallback_envelope_def
      split: option.splits prod.splits sum.splits if_splits)


lemma orders_by_asset_answer:
  assumes "plugin_outcome query schema module unparsed w = Some (Inr orders, w1)"
    and "orders \<noteq> JArr [] \<or> opted_slug schema unparsed = None"
  shows "orders_by_asset endpoint tag query schema E apiKey module unparsed w =
           (Inr (JObj [(''data'', JObj [(''orders'', orders)])]), w1)"
proof -
  from assms(1) obtain reg plugin where
    m: "module = Some reg" and g: "getNftPlugin reg ''opensea'' = Some plugin"
    and q: "query plugin (asset_call schema unparsed) w = (Inr orders, w1)"
    by (auto simp: plugin_outcome_def split: option.splits)
  show ?thesis
  proof (cases "schema unparsed")
    case (Inl iss)
    have "plugin_path endpoint tag query E apiKey (Some reg) DEFAULTS_contract DEFAULTS_token_id
            None None None None w = (Some (JObj [(''data'', JObj [(''orders'', orders)])]), w1)"
      using q Inl by (intro plugin_path_answer[OF g]) (simp_all add: asset_call_def)
    then show ?thesis by (simp add: orders_by_asset_unfold Inl m)
  next
    case (Inr d)
    have "plugin_path endpoint tag query E apiKey (Some reg)
            (truthy_or (contract_address d) DEFAULTS_contract) (truthy_or (token_id d) DEFAULTS_token_id)
            (collection_slug d) (fallback_to_collection d) (limit_arg d) (cursor_arg d) w =
          (Some (JObj [(''data'', JObj [(''orders'', orders)])]), w1)"
      using q Inr assms(2) by (intro plugin_path_answer[OF g]) (simp_all add: asset_call_def opted_slug_def)
    then show ?thesis by (simp add: orders_by_asset_unfold Inr m)
  qed
qed

lemma orders_by_asset_other:
  assumes r: "orders_by_asset endpoint tag query schema E apiKey module unparsed w = (Inr out, w')"
    and n: "\<not> (\<exists>orders w1. plugin_outcome query schema module unparsed w = Some (Inr orders, w1) \<and>
                 (orders \<noteq> JArr [] \<or> opted_slug schema unparsed = None))"
  shows "(keys_of out = envelope_keys \<or> keys_of out = envelope_keys @ [''fallback'']) \<and>
         (opted_slug schema unparsed = None \<longrightarrow> keys_of out = envelope_keys)"
proof -
  define contract where "contract = (case schema unparsed of
      Inr d \<Rightarrow> truthy_or (contract_address d) DEFAULTS_contract | Inl iss \<Rightarrow> DEFAULTS_contract)"
  define token where "token = (case schema unparsed of
      Inr d \<Rightarrow> truthy_or (token_id d) DEFAULTS_token_id | Inl iss \<Rightarrow> DEFAULTS_token_id)"
  define slug where "slug = (case schema unparsed of Inr d \<Rightarrow> collection_slug d | Inl iss \<Rightarrow> None)"
  define fb where "fb = (case schema unparsed of Inr d \<Rightarrow> fallback_to_collection d | Inl iss \<Rightarrow> None)"
  define lim where "lim = (case schema unparsed of Inr d \<Rightarrow> limit_arg d | Inl iss \<Rightarrow> None)"
  define cursor where "cursor = (case schema unparsed of Inr d \<Rightarrow> cursor_arg d | Inl iss \<Rightarrow> None)"
  have ac: "asset_call schema unparsed = \<lparr>contractAddress = contract, tokenId = QStr token, chainId = 42161\<rparr>"
    by (simp add: asset_call_def contract_def token_def)
  have os: "opted_slug schema unparsed = fallback_slug fb slug"
    by (simp add: opted_slug_def fb_def slug_def split: sum.splits)
  have u: "orders_by_asset endpoint tag query schema E apiKey module unparsed w =
             (case plugin_path endpoint tag query E apiKey module contract token slug fb lim cursor w of
                (Some out, w1) \<Rightarrow> (Inr out, w1)
              | (None, w1) \<Rightarrow> http_path endpoint tag E apiKey contract token slug fb lim cursor w1)"
    unfolding orders_by_asset_def Let_def contract_def token_def slug_def fb_def lim_def cursor_def
    by (rule refl)
  obtain po w1 where pp: "plugin_path endpoint tag query E apiKey module contract token slug fb lim cursor w = (po, w1)"
    by force
  have n': "\<not> (\<exists>reg plugin orders w1. module = Some reg \<and> getNftPlugin reg ''opensea'' = Some plugin \<and>
              query plugin \<lparr>contractAddress = contract, tokenId = QStr token, chainId = 42161\<rparr> w = (Inr orders, w1) \<and>
              (orders \<noteq> JArr [] \<or> fallback_slug fb slug = None))"
  proof
    assume "\<exists>reg plugin orders w1. module = Some reg \<and> getNftPlugin reg ''opensea'' = Some plugin \<and>
              query plugin \<lparr>contractAddress = contract, tokenId = QStr token, chainId = 42161\<rparr> w = (Inr orders, w1) \<and>
              (orders \<noteq> JArr [] \<or> fallback_slug fb slug = None)"
    then obtain reg plugin orders w1 where
      h: "module = Some reg" "getNftPlugin reg ''opensea'' = Some plugin"
         "query plugin \<lparr>contractAddress = contract, tokenId = QStr token, chainId = 42161\<rparr> w = (Inr orders, w1)"
         "orders \<noteq> JArr [] \<or> fallback_slug fb slug = None"
      by blast
    have "plugin_outcome query schema module unparsed w = Some (Inr orders, w1)"
      using h(1,2,3) by (simp add: plugin_outcome_def ac)
    with h(4) n os show False by metis
  qed
  show ?thesis
  proof (cases po)
    case None
    with r pp have "http_path endpoint tag E apiKey contract token slug fb lim cursor w1 = (Inr out, w')"
      by (simp add: u)
    from http_path_keys_opted[OF this] show ?thesis unfolding os .
  next
    case (Some o1)
    with r pp have "o1 = out" by (simp add: u)
    with pp Some have "plugin_path endpoint tag query E apiKey module contract token slug fb lim cursor w = (Some out, w1)"
      by simp
    from plugin_path_other[OF this n'] show ?thesis unfolding os by simp
  qed
qed

text \<open>
  C6, as stated, fails: with a plugin registered as opensea that answers with a listing,
  the asset listings tool succeeds with an object that has no \<^verbatim>\<open>rateLimit\<close>.
\<close>

theorem read_tool_envelope_counterexample:
  "fst (get_listings_by_asset (sample_env always_500) ''key'' (Some [(''opensea'', stub_plugin (JArr [JStr ''order-1'']))])
     (JObj []) fresh_world) = Inr (JObj [(''data'', JObj [(''orders'', JArr [JStr ''order-1''])])]) \<and>
   ''rateLimit'' \<notin> set (keys_of (JObj [(''data'', JObj [(''orders'', JArr [JStr ''order-1''])])]))"
  by code_simp

text \<open>
  C6, amended. On success the four tools without a plugin path return an object with the
  keys \<^verbatim>\<open>rateLimit\<close>, \<^verbatim>\<open>nextCursor\<close> (not for \<^verbatim>\<open>get_collection\<close>) and \<^verbatim>\<open>data\<close>. For the two asset
  tools: when the import succeeds, a plugin named opensea is registered, its order query for
  the asset resolves, and the answer is not the empty sequence or the invocation does not
  opt into the collection fallback with a slug, the tool returns exactly \<^verbatim>\<open>{data: {orders}}\<close>
  with the answer of the plugin, without \<^verbatim>\<open>rateLimit\<close>, and issues no request after the
  plugin. In every other case (the import rejects, no such plugin is registered, the plugin
  throws, or the plugin answers with the empty sequence and the invocation opted in with a
  slug) a successful result carries \<^verbatim>\<open>rateLimit\<close>: its keys are \<^verbatim>\<open>rateLimit\<close>, \<^verbatim>\<open>nextCursor\<close>,
  \<^verbatim>\<open>data\<close>, followed by \<^verbatim>\<open>fallback\<close> only if the invocation opted in with a slug.
\<close>

theorem read_tool_envelope:
  "(get_wallet_nfts E apiKey unparsed w = (Inr out, w') \<longrightarrow> keys_of out = [''rateLimit'', ''nextCursor'', ''data'']) \<and>
   (get_collection E apiKey unparsed w = (Inr out, w') \<longrightarrow> keys_of out = [''rateLimit'', ''data'']) \<and>
   (list_arbitrum_collections E apiKey lim cursor w = (Inr out, w') \<longrightarrow>
      keys_of out = [''rateLimit'', ''nextCursor'', ''data'']) \<and>
   (get_listings_by_collection E apiKey unparsed w = (Inr out, w') \<longrightarrow>
      keys_of out = [''rateLimit'', ''nextCursor'', ''data'']) \<and>
   (plugin_outcome getListings GetAssetListingsSchemaRaw module unparsed w = Some (Inr orders, w_plugin) \<and>
    (orders \<noteq> JArr [] \<or> opted_slug GetAssetListingsSchemaRaw unparsed = None) \<longrightarrow>
      get_listings_by_asset E apiKey module unparsed w =
        (Inr (JObj [(''data'', JObj [(''orders'', orders)])]), w_plugin)) \<and>
   (get_listings_by_asset E apiKey module unparsed w = (Inr out, w') \<and>
    \<not> (\<exists>orders w_plugin.
          plugin_outcome getListings GetAssetListingsSchemaRaw module unparsed w = Some (Inr orders, w_plugin) \<and>
          (orders \<noteq> JArr [] \<or> opted_slug GetAssetListingsSchemaRaw unparsed = None)) \<longrightarrow>
      (keys_of out = [''rateLimit'', ''nextCursor'', ''data''] \<or>
       keys_of out = [''rateLimit'', ''nextCursor'', ''data'', ''fallback'']) \<and>
      (opted_slug GetAssetListingsSchemaRaw unparsed = None \<longrightarrow>
         keys_of out = [''rateLimit'', ''nextCursor'', ''data''])) \<and>
   (plugin_outcome getOffers GetAssetOffersSchemaRaw module unparsed w = Some (Inr orders, w_plugin) \<and>
    (orders \<noteq> JArr [] \<or> opted_slug GetAssetOffersSchemaRaw unparsed = None) \<longrightarrow>
      get_offers_by_asset E apiKey module unparsed w =
        (Inr (JObj [(''data'', JObj [(''orders'', orders)])]), w_plugin)) \<and>
   (get_offers_by_asset E apiKey module unparsed w = (Inr out, w') \<and>
    \<not> (\<exists>orders w_plugin.
          plugin_outcome getOffers GetAssetOffersSchemaRaw module unparsed w = Some (Inr orders, w_plugin) \<and>
          (orders \<noteq> JArr [] \<or> opted_slug GetAssetOffersSchemaRaw unparsed = None)) \<longrightarrow>
      (keys_of out = [''rateLimit'', ''nextCursor'', ''data''] \<or>
       keys_of out = [''rateLimit'', ''nextCursor'', ''data'', ''fallback'']) \<and>
      (opted_slug GetAssetOffersSchemaRaw unparsed = None \<longrightarrow>
         keys_of out = [''rateLimit'', ''nextCursor'', ''data'']))"
proof (intro conjI)
  show "get_wallet_nfts E apiKey unparsed w = (Inr out, w') \<longrightarrow> keys_of out = [''rateLimit'', ''nextCursor'', ''data'']"
    using get_wallet_nfts_keys[of E apiKey unparsed w out w'] by (simp add: envelope_keys_def)
  show "get_collection E apiKey unparsed w = (Inr out, w') \<longrightarrow> keys_of out = [''rateLimit'', ''data'']"
    using get_collection_keys[of E apiKey unparsed w out w'] by simp
  show "list_arbitrum_collections E apiKey lim cursor w = (Inr out, w') \<longrightarrow>
      keys_of out = [''rateLimit'', ''nextCursor'', ''data'']"
    using list_arbitrum_collections_keys[of E apiKey lim cursor w out w'] by (simp add: envelope_keys_def)
  show "get_listings_by_collection E apiKey unparsed w = (Inr out, w') \<longrightarrow>
      keys_of out = [''rateLimit'', ''nextCursor'', ''data'']"
    using get_listings_by_collection_keys[of E apiKey unparsed w out w'] by (simp add: envelope_keys_def)
  show "plugin_outcome getListings GetAssetListingsSchemaRaw module unparsed w = Some (Inr orders, w_plugin) \<and>
    (orders \<noteq> JArr [] \<or> opted_slug GetAssetListingsSchemaRaw unparsed = None) \<longrightarrow>
      get_listings_by_asset E apiKey module unparsed w =
        (Inr (JObj [(''data'', JObj [(''orders'', orders)])]), w_plugin)"
    unfolding get_listings_by_asset_def using orders_by_asset_answer by blast
  show "plugin_outcome getOffers GetAssetOffersSchemaRaw module unparsed w = Some (Inr orders, w_plugin) \<and>
    (orders \<noteq> JArr [] \<or> opted_slug GetAssetOffersSchemaRaw unparsed = None) \<longrightarrow>
      get_offers_by_asset E apiKey module unparsed w =
        (Inr (JObj [(''data'', JObj [(''orders'', orders)])]), w_plugin)"
    unfolding get_offers_by_asset_def using orders_by_asset_answer by blast
  show "get_listings_by_asset E apiKey module unparsed w = (Inr out, w') \<and>
    \<not> (\<exists>orders w_plugin.
          plugin_outcome getListings GetAssetListingsSchemaRaw module unparsed w = Some (Inr orders, w_plugin) \<and>
          (orders \<noteq> JArr [] \<or> opted_slug GetAssetListingsSchemaRaw unparsed = None)) \<longrightarrow>
      (keys_of out = [''rateLimit'', ''nextCursor'', ''data''] \<or>
       keys_of out = [''rateLimit'', ''nextCursor'', ''data'', ''fallback'']) \<and>
      (opted_slug GetAssetListingsSchemaRaw unparsed = None \<longrightarrow>
         keys_of out = [''rateLimit'', ''nextCursor'', ''data''])"
  proof
    assume a: "get_listings_by_asset E apiKey module unparsed w = (Inr out, w') \<and>
      \<not> (\<exists>orders w_plugin.
          plugin_outcome getListings GetAssetListingsSchemaRaw module unparsed w = Some (Inr orders, w_plugin) \<and>
          (orders \<noteq> JArr [] \<or> opted_slug GetAssetListingsSchemaRaw unparsed = None))"
    from a[THEN conjunct1] have "orders_by_asset ''listings'' ''collection_listings'' getListings
        GetAssetListingsSchemaRaw E apiKey module unparsed w = (Inr out, w')"
      by (simp only: get_listings_by_asset_def)
    from orders_by_asset_other[OF this a[THEN conjunct2]]
    show "(keys_of out = [''rateLimit'', ''nextCursor'', ''data''] \<or>
       keys_of out = [''rateLimit'', ''nextCursor'', ''data'', ''fallback'']) \<and>
      (opted_slug GetAssetListingsSchemaRaw unparsed = None \<longrightarrow>
         keys_of out = [''rateLimit'', ''nextCursor'', ''data''])"
      by (simp add: envelope_keys_def)
  qed
  show "get_offers_by_asset E apiKey module unparsed w = (Inr out, w') \<and>
    \<not> (\<exists>orders w_plugin.
          plugin_outcome getOffers GetAssetOffersSchemaRaw module unparsed w = Some (Inr orders, w_plugin) \<and>
          (orders \<noteq> JArr [] \<or> opted_slug GetAssetOffersSchemaRaw unparsed = None)) \<longrightarrow>
      (keys_of out = [''rateLimit'', ''nextCursor'', ''data''] \<or>
       keys_of out = [''rateLimit'', ''nextCursor'', ''data'', ''fallback'']) \<and>
      (opted_slug GetAssetOffersSchemaRaw unparsed = None \<longrightarrow>
         keys_of out = [''rateLimit'', ''nextCursor'', ''data''])"
  proof
    assume a: "get_offers_by_asset E apiKey module unparsed w = (Inr out, w') \<and>
      \<not> (\<exists>orders w_plugin.
          plugin_outcome getOffers GetAssetOffersSchemaRaw module unparsed w = Some (Inr orders, w_plugin) \<and>
          (orders \<noteq> JArr [] \<or> opted_slug GetAssetOffersSchemaRaw unparsed = None))"
    from a[THEN conjunct1] have "orders_by_asset ''offers'' ''collection_offers'' getOffers
        GetAssetOffersSchemaRaw E apiKey module unparsed w = (Inr out, w')"
      by (simp only: get_offers_by_asset_def)
    from orders_by_asset_other[OF this a[THEN conjunct2]]
    show "(keys_of out = [''rateLimit'', ''nextCursor'', ''data''] \<or>
       keys_of out = [''rateLimit'', ''nextCursor'', ''data'', ''fallback'']) \<and>
      (opted_slug GetAssetOffersSchemaRaw unparsed = None \<longrightarrow>
         keys_of out = [''rateLimit'', ''nextCursor'', ''data''])"
      by (simp add: envelope_keys_def)
  qed
qed

section \<open>Validation failures\<close>














text \<open>An untrimmed slug and an upper-case address that pass the schema, and an empty plugin answer.\<close>

theorem get_listings_by_asset_fallback_witness:
  "get_listings_by_asset (sample_env (always_ok collection_payload)) ''key''
     (Some [(''opensea'', stub_plugin (JArr []))]) fallback_args fresh_world =
   (Inr (JObj [(''rateLimit'', json_of_rateLimit (rateLimit collection_result)),
               (''nextCursor'', nextCursor_of (data collection_result)),
               (''data'', data collection_result),
               (''fallback'', JStr ''collection_listings'')]),
    fresh_world\<lparr>sent := [osFetch_request (sample_env (always_ok collection_payload))
       ''/api/v2/orders/arbitrum/seaport/listings'' ''key''
       (Some [(''collection_slug'', Some (QStr ''some-collection''))])]\<rparr>)"
proof (rule get_listings_by_asset_fallback[where d = fallback_data and slug = "''some-collection''"
      and c = "''0xe6270e46c9f99f00d459ca707298d8679f44b9ae''" and t = "''13''" and w_plugin = fresh_world
      and plugin = "stub_plugin (JArr [])"])
  show "getNftPlugin [(''opensea'', stub_plugin (JArr []))] ''opensea'' = Some (stub_plugin (JArr []))"
    by (simp add: getNftPlugin_def)
  show "GetAssetListingsSchemaRaw fallback_args = Inr fallback_data" by code_simp
  show "contract_address fallback_data = Some ''0xe6270e46c9f99f00d459ca707298d8679f44b9ae''"
    by (simp add: fallback_data_def)
  show "token_id fallback_data = Some ''13''" by (simp add: fallback_data_def)
  show "fallback_to_collection fallback_data = Some True" by (simp add: fallback_data_def)
  show "collection_slug fallback_data = Some ''some-collection''" by (simp add: fallback_data_def)
  show "getListings (stub_plugin (JArr []))
          \<lparr>contractAddress = ''0xe6270e46c9f99f00d459ca707298d8679f44b9ae'', tokenId = QStr ''13'', chainId = 42161\<rparr>
          fresh_world = (Inr (JArr []), fresh_world)"
    by (simp add: stub_plugin_def)
  show "osFetch (sample_env (always_ok collection_payload)) ''/api/v2/orders/arbitrum/seaport/listings'' ''key''
          (Some (collection_params ''some-collection'' (limit_arg fallback_data) (cursor_arg fallback_data))) fresh_world =
        (Inr collection_result,
         fresh_world\<lparr>sent := [osFetch_request (sample_env (always_ok collection_payload))
           ''/api/v2/orders/arbitrum/seaport/listings'' ''key''
           (Some [(''collection_slug'', Some (QStr ''some-collection''))])]\<rparr>)"
    by code_simp
qed

lemma succeeded:
  assumes "\<not> isl (fst X)"
  shows "\<exists>out. X = (Inr out, snd X)"
  using assms by (cases X; cases "fst X") auto

text \<open>
  A successful run of each of the six tools: the four tools without a plugin path, and the
  asset tools with a plugin that answers, without a plugin, with a plugin that throws and
  with a plugin whose empty answer leads to the collection fallback.
\<close>

theorem read_tool_envelope_witness:
  "(\<exists>out w'. get_wallet_nfts (sample_env only_remaining) ''key'' (JObj []) fresh_world = (Inr out, w') \<and>
      keys_of out = [''rateLimit'', ''nextCursor'', ''data'']) \<and>
   (\<exists>out w'. get_collection (sample_env only_remaining) ''key'' (JObj []) fresh_world = (Inr out, w') \<and>
      keys_of out = [''rateLimit'', ''data'']) \<and>
   (\<exists>out w'. list_arbitrum_collections (sample_env only_remaining) ''key'' 20 None fresh_world = (Inr out, w') \<and>
      keys_of out = [''rateLimit'', ''nextCursor'', ''data'']) \<and>
   (\<exists>out w'. get_listings_by_collection (sample_env only_remaining) ''key'' (JObj []) fresh_world = (Inr out, w') \<and>
      keys_of out = [''rateLimit'', ''nextCursor'', ''data'']) \<and>
   get_listings_by_asset (sample_env always_500) ''key'' (Some [(''opensea'', stub_plugin (JArr [JStr ''order-1'']))])
      (JObj []) fresh_world = (Inr (JObj [(''data'', JObj [(''orders'', JArr [JStr ''order-1''])])]), fresh_world) \<and>
   (\<exists>out w'. get_listings_by_asset (sample_env only_remaining) ''key'' None (JObj []) fresh_world = (Inr out, w') \<and>
      keys_of out = [''rateLimit'', ''nextCursor'', ''data'']) \<and>
   (\<exists>out w'. get_listings_by_asset (sample_env only_remaining) ''key'' (Some [(''opensea'', throwing_plugin)])
                default_asset_call fresh_world = (Inr out, w') \<and>
      keys_of out = [''rateLimit'', ''nextCursor'', ''data'']) \<and>
   (\<exists>out w'. get_listings_by_asset (sample_env (always_ok collection_payload)) ''key''
                (Some [(''opensea'', stub_plugin (JArr []))]) fallback_args fresh_world = (Inr out, w') \<and>
      ''rateLimit'' \<in> set (keys_of out)) \<and>
   get_offers_by_asset (sample_env always_500) ''key'' (Some [(''opensea'', stub_plugin (JArr [JStr ''offer-1'']))])
      (JObj []) fresh_world = (Inr (JObj [(''data'', JObj [(''orders'', JArr [JStr ''offer-1''])])]), fresh_world) \<and>
   (\<exists>out w'. get_offers_by_asset (sample_env only_remaining) ''key'' (Some [(''opensea'', throwing_plugin)])
                default_asset_call fresh_world = (Inr out, w') \<and>
      keys_of out = [''rateLimit'', ''nextCursor'', ''data''])"
proof -
  have "\<not> isl (fst (get_wallet_nfts (sample_env only_remaining) ''key'' (JObj []) fresh_world))" by code_simp
  from succeeded[OF this] obtain o1 w1 where
    r1: "get_wallet_nfts (sample_env only_remaining) ''key'' (JObj []) fresh_world = (Inr o1, w1)" by blast
  have "\<not> isl (fst (get_collection (sample_env only_remaining) ''key'' (JObj []) fresh_world))" by code_simp
  from succeeded[OF this] obtain o2 w2 where
    r2: "get_collection (sample_env only_remaining) ''key'' (JObj []) fresh_world = (Inr o2, w2)" by blast
  have "\<not> isl (fst (list_arbitrum_collections (sample_env only_remaining) ''key'' 20 None fresh_world))" by code_simp
  from succeeded[OF this] obtain o3 w3 where
    r3: "list_arbitrum_collections (sample_env only_remaining) ''key'' 20 None fresh_world = (Inr o3, w3)" by blast
  have "\<not> isl (fst (get_listings_by_collection (sample_env only_remaining) ''key'' (JObj []) fresh_world))" by code_simp
  from succeeded[OF this] obtain o4 w4 where
    r4: "get_listings_by_collection (sample_env only_remaining) ''key'' (JObj []) fresh_world = (Inr o4, w4)" by blast
  have p5: "plugin_outcome getListings GetAssetListingsSchemaRaw
              (Some [(''opensea'', stub_plugin (JArr [JStr ''order-1'']))]) (JObj []) fresh_world =
            Some (Inr (JArr [JStr ''order-1'']), fresh_world) \<and>
            (JArr [JStr ''order-1''] \<noteq> JArr [] \<or> opted_slug GetAssetListingsSchemaRaw (JObj []) = None)"
    by (simp add: plugin_outcome_def getNftPlugin_def stub_plugin_def)
  have s0: "opted_slug GetAssetListingsSchemaRaw (JObj []) = None" by code_simp
  have "\<not> isl (fst (get_listings_by_asset (sample_env only_remaining) ''key'' None (JObj []) fresh_world))" by code_simp
  from succeeded[OF this] obtain o6 w6 where
    r6: "get_listings_by_asset (sample_env only_remaining) ''key'' None (JObj []) fresh_world = (Inr o6, w6)" by blast
  have n6: "\<not> (\<exists>orders w_plugin.
          plugin_outcome getListings GetAssetListingsSchemaRaw None (JObj []) fresh_world = Some (Inr orders, w_plugin) \<and>
          (orders \<noteq> JArr [] \<or> opted_slug GetAssetListingsSchemaRaw (JObj []) = None))"
    by (simp add: plugin_outcome_def)
  have s7: "opted_slug GetAssetListingsSchemaRaw default_asset_call = None" by code_simp
  have "\<not> isl (fst (get_listings_by_asset (sample_env only_remaining) ''key'' (Some [(''opensea'', throwing_plugin)])
                default_asset_call fresh_world))" by code_simp
  from succeeded[OF this] obtain o7 w7 where
    r7: "get_listings_by_asset (sample_env only_remaining) ''key'' (Some [(''opensea'', throwing_plugin)])
                default_asset_call fresh_world = (Inr o7, w7)" by blast
  have n7: "\<not> (\<exists>orders w_plugin.
          plugin_outcome getListings GetAssetListingsSchemaRaw (Some [(''opensea'', throwing_plugin)])
             default_asset_call fresh_world = Some (Inr orders, w_plugin) \<and>
          (orders \<noteq> JArr [] \<or> opted_slug GetAssetListingsSchemaRaw default_asset_call = None))"
    by (simp add: plugin_outcome_def getNftPlugin_def throwing_plugin_def)
  have s8: "opted_slug GetAssetListingsSchemaRaw fallback_args = Some ''some-collection''" by code_simp
  have "\<not> isl (fst (get_listings_by_asset (sample_env (always_ok collection_payload)) ''key''
                (Some [(''opensea'', stub_plugin (JArr []))]) fallback_args fresh_world))" by code_simp
  from succeeded[OF this] obtain o8 w8 where
    r8: "get_listings_by_asset (sample_env (always_ok collection_payload)) ''key''
                (Some [(''opensea'', stub_plugin (JArr []))]) fallback_args fresh_world = (Inr o8, w8)" by blast
  have n8: "\<not> (\<exists>orders w_plugin.
          plugin_outcome getListings GetAssetListingsSchemaRaw (Some [(''opensea'', stub_plugin (JArr []))])
             fallback_args fresh_world = Some (Inr orders, w_plugin) \<and>
          (orders \<noteq> JArr [] \<or> opted_slug GetAssetListingsSchemaRaw fallback_args = None))"
    by (simp add: plugin_outcome_def getNftPlugin_def stub_plugin_def s8)
  have p9: "plugin_outcome getOffers GetAssetOffersSchemaRaw
              (Some [(''opensea'', stub_plugin (JArr [JStr ''offer-1'']))]) (JObj []) fresh_world =
            Some (Inr (JArr [JStr ''offer-1'']), fresh_world) \<and>
            (JArr [JStr ''offer-1''] \<noteq> JArr [] \<or> opted_slug GetAssetOffersSchemaRaw (JObj []) = None)"
    by (simp add: plugin_outcome_def getNftPlugin_def stub_plugin_def)
  have s10: "opted_slug GetAssetOffersSchemaRaw default_asset_call = None" by code_simp
  have "\<not> isl (fst (get_offers_by_asset (sample_env only_remaining) ''key'' (Some [(''opensea'', throwing_plugin)])
                default_asset_call fresh_world))" by code_simp
  from succeeded[OF this] obtain o10 w10 where
    r10: "get_offers_by_asset (sample_env only_remaining) ''key'' (Some [(''opensea'', throwing_plugin)])
                default_asset_call fresh_world = (Inr o10, w10)" by blast
  have n10: "\<not> (\<exists>orders w_plugin.
          plugin_outcome getOffers GetAssetOffersSchemaRaw (Some [(''opensea'', throwing_plugin)])
             default_asset_call fresh_world = Some (Inr orders, w_plugin) \<and>
          (orders \<noteq> JArr [] \<or> opted_slug GetAssetOffersSchemaRaw default_asset_call = None))"
    by (simp add: plugin_outcome_def getNftPlugin_def throwing_plugin_def)
  note t1 = read_tool_envelope[THEN conjunct1, rule_format, OF r1]
  note t2 = read_tool_envelope[THEN conjunct2, THEN conjunct1, rule_format, OF r2]
  note t3 = read_tool_envelope[THEN conjunct2, THEN conjunct2, THEN conjunct1, rule_format, OF r3]
  note t4 = read_tool_envelope[THEN conjunct2, THEN conjunct2, THEN conjunct2, THEN conjunct1, rule_format, OF r4]
  note c6 = read_tool_envelope[THEN conjunct2, THEN conjunct2, THEN conjunct2, THEN conjunct2, THEN conjunct2,
      THEN conjunct1]
  note c8 = read_tool_envelope[THEN conjunct2, THEN conjunct2, THEN conjunct2, THEN conjunct2, THEN conjunct2,
      THEN conjunct2, THEN conjunct2]
  note t5 = read_tool_envelope[where E = "sample_env always_500" and apiKey = "''key''",
      THEN conjunct2, THEN conjunct2, THEN conjunct2, THEN conjunct2, THEN conjunct1, THEN mp, OF p5]
  note t6 = c6[THEN mp, OF conjI[OF r6 n6], THEN conjunct2, THEN mp, OF s0]
  note t7 = c6[THEN mp, OF conjI[OF r7 n7], THEN conjunct2, THEN mp, OF s7]
  note t8 = c6[THEN mp, OF conjI[OF r8 n8], THEN conjunct1]
  note t9 = read_tool_envelope[where E = "sample_env always_500" and apiKey = "''key''",
      THEN conjunct2, THEN conjunct2, THEN conjunct2, THEN conjunct2, THEN conjunct2,
      THEN conjunct2, THEN conjunct1, THEN mp, OF p9]
  note t10 = c8[THEN mp, OF conjI[OF r10 n10], THEN conjunct2, THEN mp, OF s10]
  from t8 have t8': "''rateLimit'' \<in> set (keys_of o8)" by auto
  show ?thesis
    apply (intro conjI)
    using r1 t1 apply blast
    using r2 t2 apply blast
    using r3 t3 apply blast
    using r4 t4 apply blast
    apply (rule t5)
    using r6 t6 apply blast
    using r7 t7 apply blast
    using r8 t8' apply blast
    apply (rule t9)
    using r10 t10 apply blast
    done
qed

end
